theory Spec2Isabelle
  imports Complex_Main "HOL-Library.Product_Lexorder"
begin

section \<open>Conventions of the embedding\<close>

text \<open>
  The platform is Python.  Currency amounts are Python floats; they are modelled as exact
  rationals (\<open>rat\<close>), so rounding and overflow of IEEE doubles are outside the model.
  Python's unbounded \<open>int\<close> is \<open>int\<close>.  Every exception the modelled code can raise is a
  value of \<open>py_error\<close>; a FastAPI \<open>HTTPException\<close> carries its status code.
\<close>

datatype py_error =
    ZeroDivisionError
  | KeyError
  | AttributeError
  | UnboundLocalError string
  | IntegrityError
  | ValueError string
  | ExternalError string
  | HTTPException nat

text \<open>
  A request works on a database session.  Nothing of a session is visible before its
  \<open>commit\<close>, and a session that ends in an exception is discarded, so every stateful
  operation returns its outcome together with the tables as they stand afterwards: the
  old tables where it raised before committing.  A table is the list of its rows;
  \<open>query(...).filter(...).first()\<close> is \<open>find\<close>, and assigning to an attribute of the
  fetched row object changes that one row.  Time stamps and password hashes play no role
  in what is verified and are left out of the rows.  \<open>secrets.token_hex\<close> is a draw from
  a supply of tokens handed in by the caller.
\<close>

fun update_first :: "('a \<Rightarrow> bool) \<Rightarrow> ('a \<Rightarrow> 'a) \<Rightarrow> 'a list \<Rightarrow> 'a list" where
  "update_first P f [] = []"
| "update_first P f (x # xs) = (if P x then f x # xs else x # update_first P f xs)"

type_synonym rng = "nat \<Rightarrow> string"

definition token_hex :: "rng \<Rightarrow> string \<times> rng" where
  "token_hex r = (r 0, \<lambda>i. r (Suc i))"

section \<open>pricing.py\<close>

definition PRICING_script_per_minute :: rat where
  "PRICING_script_per_minute = 1"

definition PRICING_video_per_minute :: rat where
  "PRICING_video_per_minute = 3"

definition PRICING_storyboard_flat :: rat where
  "PRICING_storyboard_flat = 10"

definition PRICING_quality_multipliers :: "string \<rightharpoonup> rat" where
  "PRICING_quality_multipliers =
     [''standard'' \<mapsto> 1, ''premium'' \<mapsto> 3 / 2, ''ultra'' \<mapsto> 2]"

text \<open>The dict \<open>cost\<close> built first, returned under the key \<open>breakdown\<close>.\<close>

record cost_breakdown =
  cb_video :: rat
  cb_script :: rat
  cb_storyboard :: rat

record project_cost =
  pc_breakdown :: cost_breakdown
  pc_subtotal :: rat
  pc_quality_multiplier :: rat
  pc_total :: rat

text \<open>\<open>sum(cost.values())\<close> starts from 0 and adds the three entries in insertion order;
  \<open>dict.get(quality, 1.0)\<close> falls back to 1.0.\<close>

definition calculate_project_cost :: "int \<Rightarrow> bool \<Rightarrow> bool \<Rightarrow> string \<Rightarrow> project_cost" where
  "calculate_project_cost duration_minutes include_script include_storyboard quality =
     (let cost = \<lparr>cb_video = of_int duration_minutes * PRICING_video_per_minute,
                   cb_script = (if include_script
                                then of_int duration_minutes * PRICING_script_per_minute else 0),
                   cb_storyboard = (if include_storyboard then PRICING_storyboard_flat else 0)\<rparr>;
          subtotal = 0 + cb_video cost + cb_script cost + cb_storyboard cost;
          quality_multiplier = (case PRICING_quality_multipliers quality of
                                  Some m \<Rightarrow> m | None \<Rightarrow> 1);
          total = subtotal * quality_multiplier
      in \<lparr>pc_breakdown = cost, pc_subtotal = subtotal,
          pc_quality_multiplier = quality_multiplier, pc_total = total\<rparr>)"

section \<open>skyreels\_film\_platform.py: PricingEngine\<close>

definition BASE_RATES_script_per_minute :: rat where
  "BASE_RATES_script_per_minute = 1"

definition BASE_RATES_video_per_minute :: rat where
  "BASE_RATES_video_per_minute = 3"

definition BASE_RATES_storyboard_flat :: rat where
  "BASE_RATES_storyboard_flat = 10"

definition BASE_RATES_rush_multiplier :: rat where
  "BASE_RATES_rush_multiplier = 2"

definition BASE_RATES_premium_quality :: rat where
  "BASE_RATES_premium_quality = 3 / 2"

definition GPU_COSTS_a100_40gb :: rat where
  "GPU_COSTS_a100_40gb = 66 / 100"

record costs =
  video_generation :: rat
  script_writing :: rat
  storyboarding :: rat
  subtotal :: rat
  rush_fee :: rat
  quality_fee :: rat
  total :: rat
  profit_margin :: rat
  gpu_cost_estimate :: rat
  profit_percentage :: rat

text \<open>
  The dict \<open>costs\<close> is filled key by key.  The last assignment divides by
  \<open>costs['total']\<close>; Python raises \<open>ZeroDivisionError\<close> when that is 0, and then
  nothing is returned.
\<close>

definition PricingEngine_calculate_project_cost ::
  "int \<Rightarrow> bool \<Rightarrow> bool \<Rightarrow> string \<Rightarrow> bool \<Rightarrow> py_error + costs" where
  "PricingEngine_calculate_project_cost duration_minutes include_script include_storyboard
       quality rush =
     (let video = of_int duration_minutes * BASE_RATES_video_per_minute;
          script = (if include_script
                    then of_int duration_minutes * BASE_RATES_script_per_minute else 0);
          storyboard = (if include_storyboard then BASE_RATES_storyboard_flat else 0);
          sub = video + script + storyboard;
          qfee = (if quality = ''premium'' then sub * (BASE_RATES_premium_quality - 1) else 0);
          rfee = (if rush then sub * (BASE_RATES_rush_multiplier - 1) else 0);
          tot = sub + qfee + rfee;
          gpu_hours = (of_int duration_minutes / 5) / 60;
          gpu = gpu_hours * GPU_COSTS_a100_40gb;
          margin = tot - gpu
      in if tot = 0 then Inl ZeroDivisionError
         else Inr \<lparr>video_generation = video, script_writing = script,
                    storyboarding = storyboard, subtotal = sub, rush_fee = rfee,
                    quality_fee = qfee, total = tot, profit_margin = margin,
                    gpu_cost_estimate = gpu, profit_percentage = (margin / tot) * 100\<rparr>)"

section \<open>models.py, schemas.py\<close>

record user =
  user_id :: string
  email :: string
  credits :: rat
  subscription_tier :: string
  is_admin :: bool

record project =
  project_id :: string
  project_user_id :: string
  title :: string
  duration_minutes :: int
  format :: string
  status :: string
  progress :: int
  cost :: rat
  film_url :: "string option"
  metadata :: string

record transaction =
  transaction_id :: string
  transaction_user_id :: string
  transaction_type :: string
  amount :: "rat option"
  transaction_credits :: rat
  description :: string
  stripe_payment_id :: "string option"

record db =
  users :: "user list"
  projects :: "project list"
  transactions :: "transaction list"

text \<open>\<open>schemas.ProjectCreate\<close>; the platform's \<open>ProjectRequest\<close> has the same fields.\<close>

record project_data =
  req_title :: string
  req_duration_minutes :: int
  req_format :: string
  req_include_script :: bool
  req_include_storyboard :: bool
  req_quality :: string
  req_source_content :: "string option"

record project_response =
  resp_project_id :: string
  resp_title :: string
  resp_status :: string
  resp_cost :: rat

record token_response =
  tr_user_id :: string
  tr_credits :: rat

section \<open>crud.py\<close>

definition get_user_by_email :: "db \<Rightarrow> string \<Rightarrow> user option" where
  "get_user_by_email d e = find (\<lambda>u. email u = e) (users d)"

text \<open>\<open>id\<close> is the primary key and \<open>email\<close> is unique: the insert of a row that
  repeats either fails at \<open>commit\<close>.\<close>

definition create_user :: "db \<Rightarrow> string \<Rightarrow> string \<Rightarrow> (py_error + user) \<times> db" where
  "create_user d tok user_email =
     (let u = \<lparr>user_id = tok, email = user_email, credits = 10,
                  subscription_tier = ''free'', is_admin = False\<rparr>
      in if list_ex (\<lambda>v. user_id v = tok \<or> email v = user_email) (users d)
         then (Inl IntegrityError, d)
         else (Inr u, d\<lparr>users := users d @ [u]\<rparr>))"

text \<open>\<open>project_data.json()\<close> is the serialiser \<open>json\<close>, a parameter.\<close>

definition crud_create_project ::
  "(project_data \<Rightarrow> string) \<Rightarrow> db \<Rightarrow> string \<Rightarrow> project_data \<Rightarrow> string \<Rightarrow> rat \<Rightarrow> project \<times> db" where
  "crud_create_project json d tok pd uid c =
     (let p = \<lparr>project_id = tok, project_user_id = uid, title = req_title pd,
                  duration_minutes = req_duration_minutes pd, format = req_format pd,
                  status = ''queued'', progress = 0, cost = c, film_url = None,
                  metadata = json pd\<rparr>
      in (p, d\<lparr>projects := projects d @ [p]\<rparr>))"

definition get_project :: "db \<Rightarrow> string \<Rightarrow> project option" where
  "get_project d pid = find (\<lambda>p. project_id p = pid) (projects d)"

definition update_project_status :: "db \<Rightarrow> string \<Rightarrow> string \<Rightarrow> int \<Rightarrow> db" where
  "update_project_status d pid st pr =
     d\<lparr>projects := update_first (\<lambda>p. project_id p = pid)
                        (\<lambda>p. p\<lparr>status := st, progress := pr\<rparr>) (projects d)\<rparr>"

definition complete_project :: "db \<Rightarrow> string \<Rightarrow> string \<Rightarrow> db" where
  "complete_project d pid url =
     d\<lparr>projects := update_first (\<lambda>p. project_id p = pid)
                        (\<lambda>p. p\<lparr>status := ''complete'', progress := 100, film_url := Some url\<rparr>)
                        (projects d)\<rparr>"

definition fail_project :: "db \<Rightarrow> string \<Rightarrow> string \<Rightarrow> db" where
  "fail_project d pid err =
     d\<lparr>projects := update_first (\<lambda>p. project_id p = pid)
                        (\<lambda>p. p\<lparr>status := ''failed'',
                                metadata := metadata p @ [CHR 0x0A] @ ''Error: '' @ err\<rparr>)
                        (projects d)\<rparr>"

text \<open>Both credit operations return \<open>None\<close> and raise nothing: an unknown user id skips
  the body (\<open>if user:\<close>).\<close>

definition use_credits :: "db \<Rightarrow> string \<Rightarrow> string \<Rightarrow> rat \<Rightarrow> string \<Rightarrow> (py_error + unit) \<times> db" where
  "use_credits d tok uid amt descr =
     (case find (\<lambda>u. user_id u = uid) (users d) of
        None \<Rightarrow> (Inr (), d)
      | Some _ \<Rightarrow>
          (Inr (),
           d\<lparr>users := update_first (\<lambda>u. user_id u = uid)
                             (\<lambda>u. u\<lparr>credits := credits u - amt\<rparr>) (users d),
              transactions := transactions d @
                [\<lparr>transaction_id = tok, transaction_user_id = uid,
                   transaction_type = ''usage'', amount = Some (- amt),
                   transaction_credits = - amt, description = descr,
                   stripe_payment_id = None\<rparr>]\<rparr>))"

definition add_credits ::
  "db \<Rightarrow> string \<Rightarrow> string \<Rightarrow> rat \<Rightarrow> string \<Rightarrow> string option \<Rightarrow> (py_error + unit) \<times> db" where
  "add_credits d tok uid amt descr payment_id =
     (case find (\<lambda>u. user_id u = uid) (users d) of
        None \<Rightarrow> (Inr (), d)
      | Some _ \<Rightarrow>
          (Inr (),
           d\<lparr>users := update_first (\<lambda>u. user_id u = uid)
                             (\<lambda>u. u\<lparr>credits := credits u + amt\<rparr>) (users d),
              transactions := transactions d @
                [\<lparr>transaction_id = tok, transaction_user_id = uid,
                   transaction_type = ''purchase'', amount = Some amt,
                   transaction_credits = amt, description = descr,
                   stripe_payment_id = payment_id\<rparr>]\<rparr>))"

section \<open>main.py\<close>

definition register :: "db \<Rightarrow> string \<Rightarrow> string \<Rightarrow> (py_error + token_response) \<times> db" where
  "register d tok user_email =
     (case get_user_by_email d user_email of
        Some _ \<Rightarrow> (Inl (HTTPException 400), d)
      | None \<Rightarrow>
          (case create_user d tok user_email of
             (Inl e, d') \<Rightarrow> (Inl e, d')
           | (Inr u, d') \<Rightarrow> (Inr \<lparr>tr_user_id = user_id u, tr_credits = credits u\<rparr>, d')))"

text \<open>
  \<open>current_user\<close> is the row the authentication dependency resolved for the bearer
  token.  The handler returns after queueing the background task, which runs later
  (\<open>generate_film_async\<close> below).
\<close>

definition create_project ::
  "(project_data \<Rightarrow> string) \<Rightarrow> db \<Rightarrow> string \<Rightarrow> string \<Rightarrow> user \<Rightarrow> project_data
     \<Rightarrow> (py_error + project_response) \<times> db" where
  "create_project json d ptok ttok current_user pd =
     (let c = calculate_project_cost (req_duration_minutes pd) (req_include_script pd)
                (req_include_storyboard pd) (req_quality pd)
      in if credits current_user < pc_total c then (Inl (HTTPException 402), d)
         else
           (let (p, d1) = crud_create_project json d ptok pd (user_id current_user) (pc_total c);
                (_, d2) = use_credits d1 ttok (user_id current_user) (pc_total c)
                            (''Project: '' @ title p)
            in (Inr \<lparr>resp_project_id = project_id p, resp_title = title p,
                      resp_status = status p, resp_cost = pc_total c\<rparr>, d2)))"

text \<open>
  The background task.  The script generator, the storyboard generator, the GPU backend
  and the object store are outside the repository: each call either returns or raises,
  and \<open>externals\<close> holds what the four calls do.  A Python local that has not been
  assigned is \<open>None\<close> here, and reading it raises \<open>UnboundLocalError\<close>.  The whole body
  sits in \<open>try\<close>; \<open>except Exception\<close> hands any error to \<open>fail_project\<close>.
\<close>

type_synonym script = string
type_synonym storyboard = "string list"

datatype film_result = FilmSuccess string | FilmFailure string

record externals =
  generate_script :: "string option \<Rightarrow> py_error + script"
  generate_storyboard :: "script \<Rightarrow> py_error + storyboard"
  generate_film :: "storyboard \<Rightarrow> string \<Rightarrow> py_error + film_result"
  upload_to_spaces :: "string \<Rightarrow> py_error + string"

definition local_var :: "string \<Rightarrow> 'a option \<Rightarrow> py_error + 'a" where
  "local_var name v = (case v of None \<Rightarrow> Inl (UnboundLocalError name) | Some x \<Rightarrow> Inr x)"

fun error_text :: "py_error \<Rightarrow> string" where
  "error_text (ValueError m) = m"
| "error_text (ExternalError m) = m"
| "error_text (UnboundLocalError v) = ''local variable '' @ v @ '' referenced before assignment''"
| "error_text ZeroDivisionError = ''division by zero''"
| "error_text _ = []"

text \<open>The \<open>try\<close> block: the tables as far as the block got, and the error that ended it,
  if one did.\<close>

definition generate_film_try ::
  "externals \<Rightarrow> db \<Rightarrow> string \<Rightarrow> project_data \<Rightarrow> py_error option \<times> db" where
  "generate_film_try ext d pid pd =
     (let d1 = update_project_status d pid ''generating'' 10;
          step1 = (if req_include_script pd
                   then (case generate_script ext (req_source_content pd) of
                           Inl e \<Rightarrow> Inl e
                         | Inr s \<Rightarrow> Inr (Some s,
                                       update_project_status d1 pid ''script_complete'' 30))
                   else Inr (None, d1))
      in case step1 of
           Inl e \<Rightarrow> (Some e, d1)
         | Inr (script_var, d2) \<Rightarrow>
            (let step2 =
                   (if req_include_storyboard pd
                    then (case local_var ''script'' script_var of
                            Inl e \<Rightarrow> Inl e
                          | Inr s \<Rightarrow>
                             (case generate_storyboard ext s of
                                Inl e \<Rightarrow> Inl e
                              | Inr b \<Rightarrow> Inr (Some b,
                                   update_project_status d2 pid ''storyboard_complete'' 50)))
                    else Inr (None, d2))
             in case step2 of
                  Inl e \<Rightarrow> (Some e, d2)
                | Inr (storyboard_var, d3) \<Rightarrow>
                   (case local_var ''storyboard'' storyboard_var of
                      Inl e \<Rightarrow> (Some e, d3)
                    | Inr b \<Rightarrow>
                       (case generate_film ext b (req_title pd) of
                          Inl e \<Rightarrow> (Some e, d3)
                        | Inr (FilmSuccess url) \<Rightarrow>
                           (case upload_to_spaces ext url of
                              Inl e \<Rightarrow> (Some e, d3)
                            | Inr film \<Rightarrow> (None, complete_project d3 pid film))
                        | Inr (FilmFailure err) \<Rightarrow> (None, fail_project d3 pid err)))))"

definition generate_film_async :: "externals \<Rightarrow> db \<Rightarrow> string \<Rightarrow> project_data \<Rightarrow> db" where
  "generate_film_async ext d pid pd =
     (case generate_film_try ext d pid pd of
        (None, d') \<Rightarrow> d'
      | (Some e, d') \<Rightarrow> fail_project d' pid (error_text e))"

section \<open>film\_platform/monetization\_platform.py: tables and configuration\<close>

record platform_user =
  pu_id :: string
  pu_email :: string
  pu_credits :: rat
  pu_subscription_tier :: string
  pu_referral_code :: string
  pu_referred_by :: "string option"
  pu_api_key :: string

record platform_project =
  pp_id :: string
  pp_user_id :: string
  pp_title :: string
  pp_duration_minutes :: int
  pp_format :: string
  pp_status :: string
  pp_cost :: rat
  pp_metadata :: string

record gpu_node =
  node_id :: string
  node_provider :: string
  instance_id :: string
  gpu_type :: string
  hourly_cost :: rat
  node_status :: string
  current_project_id :: "string option"
  performance_score :: rat
  region :: string

record platform_db =
  p_users :: "platform_user list"
  p_projects :: "platform_project list"
  p_transactions :: "transaction list"
  gpu_nodes :: "gpu_node list"

text \<open>Of a tier's entries the code reads \<open>price_per_minute\<close> and
  \<open>max_duration_minutes\<close>.\<close>

record tier_info =
  price_per_minute :: rat
  max_duration_minutes :: int

definition SUBSCRIPTION_TIERS :: "string \<rightharpoonup> tier_info" where
  "SUBSCRIPTION_TIERS =
     [''free'' \<mapsto> \<lparr>price_per_minute = 5, max_duration_minutes = 10\<rparr>,
      ''starter'' \<mapsto> \<lparr>price_per_minute = 3, max_duration_minutes = 60\<rparr>,
      ''pro'' \<mapsto> \<lparr>price_per_minute = 5 / 2, max_duration_minutes = 180\<rparr>,
      ''enterprise'' \<mapsto> \<lparr>price_per_minute = 2, max_duration_minutes = - 1\<rparr>]"

text \<open>Decimal text of an integer, for the f-strings.\<close>

fun str_nat :: "nat \<Rightarrow> string" where
  "str_nat n = (if n < 10 then [char_of (48 + n)]
                else str_nat (n div 10) @ [char_of (48 + n mod 10)])"

declare str_nat.simps [simp del]

definition str_int :: "int \<Rightarrow> string" where
  "str_int i = (if i < 0 then CHR ''-'' # str_nat (nat (- i)) else str_nat (nat i))"

section \<open>CreditManager\<close>

text \<open>\<open>apply_credits\<close> leaves the column \<open>amount\<close> of its transaction unset.\<close>

definition apply_credits ::
  "platform_db \<Rightarrow> string \<Rightarrow> string \<Rightarrow> rat \<Rightarrow> string \<Rightarrow> string \<Rightarrow> (py_error + rat) \<times> platform_db" where
  "apply_credits d tok uid delta transaction_ty descr =
     (case find (\<lambda>u. pu_id u = uid) (p_users d) of
        None \<Rightarrow> (Inl (ValueError ''User not found''), d)
      | Some u \<Rightarrow>
          (Inr (pu_credits u + delta),
           d\<lparr>p_users := update_first (\<lambda>u. pu_id u = uid)
                               (\<lambda>u. u\<lparr>pu_credits := pu_credits u + delta\<rparr>) (p_users d),
              p_transactions := p_transactions d @
                [\<lparr>transaction_id = tok, transaction_user_id = uid,
                   transaction_type = transaction_ty, amount = None,
                   transaction_credits = delta, description = descr,
                   stripe_payment_id = None\<rparr>]\<rparr>))"

record usage_result =
  credits_used :: rat
  remaining_credits :: rat

text \<open>The message of the second \<open>ValueError\<close> also prints the two amounts.\<close>

definition CreditManager_use_credits ::
  "platform_db \<Rightarrow> string \<Rightarrow> string \<Rightarrow> string \<Rightarrow> int \<Rightarrow> (py_error + usage_result) \<times> platform_db" where
  "CreditManager_use_credits d tok uid pid minutes =
     (case find (\<lambda>u. pu_id u = uid) (p_users d) of
        None \<Rightarrow> (Inl (ValueError ''User not found''), d)
      | Some u \<Rightarrow>
         (case SUBSCRIPTION_TIERS (pu_subscription_tier u) of
            None \<Rightarrow> (Inl KeyError, d)
          | Some tier \<Rightarrow>
             (let c = of_int minutes * price_per_minute tier
              in if pu_credits u < c then (Inl (ValueError ''Insufficient credits''), d)
                 else
                   (Inr \<lparr>credits_used = c, remaining_credits = pu_credits u - c\<rparr>,
                    d\<lparr>p_users := update_first (\<lambda>u. pu_id u = uid)
                                        (\<lambda>u. u\<lparr>pu_credits := pu_credits u - c\<rparr>) (p_users d),
                       p_transactions := p_transactions d @
                         [\<lparr>transaction_id = tok, transaction_user_id = uid,
                            transaction_type = ''usage'', amount = None,
                            transaction_credits = - c,
                            description = ''Project '' @ pid @ '': '' @ str_int minutes
                                            @ '' minutes'',
                            stripe_payment_id = None\<rparr>]\<rparr>))))"

section \<open>GPU providers\<close>

record gpu_instance =
  inst_instance_id :: string
  inst_gpu_type :: string
  inst_hourly_cost :: rat
  inst_region :: string

text \<open>
  A provider adapter: \<open>launch_instances(count, gpu_type)\<close>, which draws the tokens it
  needs, and \<open>terminate_instance(instance_id)\<close>.  The three classes of the file are
  placeholders for calls to the vendors' APIs, so the orchestrator is modelled over any
  table of adapters, and the three placeholders are one such table.
\<close>

record provider =
  launch_instances :: "int \<Rightarrow> string \<Rightarrow> rng \<Rightarrow> gpu_instance list \<times> rng"
  terminate_instance :: "string \<Rightarrow> bool"

text \<open>\<open>for i in range(count): instances.append(...)\<close>, with the instance id's prefix, the
  two prices and the region of the class.\<close>

fun launch_loop :: "string \<Rightarrow> rat \<Rightarrow> rat \<Rightarrow> string \<Rightarrow> nat \<Rightarrow> string \<Rightarrow> rng \<Rightarrow> gpu_instance list \<times> rng" where
  "launch_loop prefix c1 c2 reg 0 gpu r = ([], r)"
| "launch_loop prefix c1 c2 reg (Suc k) gpu r =
     (let (tok, r1) = token_hex r;
          (rest, r2) = launch_loop prefix c1 c2 reg k gpu r1
      in (\<lparr>inst_instance_id = prefix @ tok, inst_gpu_type = gpu,
            inst_hourly_cost = (if gpu = ''rtx4090'' then c1 else c2),
            inst_region = reg\<rparr> # rest, r2))"

definition RunPodProvider :: provider where
  "RunPodProvider =
     \<lparr>launch_instances = (\<lambda>count gpu r.
          launch_loop ''runpod_'' (44 / 100) (119 / 100) ''us-east-1'' (nat count) gpu r),
      terminate_instance = (\<lambda>_. True)\<rparr>"

definition VastAIProvider :: provider where
  "VastAIProvider =
     \<lparr>launch_instances = (\<lambda>count gpu r.
          launch_loop ''vast_'' (35 / 100) (99 / 100) ''us-west-2'' (nat count) gpu r),
      terminate_instance = (\<lambda>_. True)\<rparr>"

definition LambdaLabsProvider :: provider where
  "LambdaLabsProvider =
     \<lparr>launch_instances = (\<lambda>count gpu r.
          launch_loop ''lambda_'' (50 / 100) (149 / 100) ''us-central-1'' (nat count) gpu r),
      terminate_instance = (\<lambda>_. True)\<rparr>"

text \<open>\<open>self.providers\<close> as \<open>GPUOrchestrator.__init__\<close> fills it.\<close>

definition default_providers :: "string \<rightharpoonup> provider" where
  "default_providers =
     [''runpod'' \<mapsto> RunPodProvider, ''vast'' \<mapsto> VastAIProvider,
      ''lambda'' \<mapsto> LambdaLabsProvider]"

section \<open>GPUOrchestrator\<close>

text \<open>The inner loop of \<open>scale_up\<close>: one pending \<open>GPUNode\<close> per launched instance.  The
  column default gives \<open>performance_score\<close> 1.0.  The state is \<open>nodes_to_add\<close>, the
  pending rows, \<open>new_nodes\<close> and the token supply.\<close>

fun persist_launched ::
  "string \<Rightarrow> gpu_instance list \<Rightarrow> int \<times> gpu_node list \<times> string list \<times> rng
     \<Rightarrow> int \<times> gpu_node list \<times> string list \<times> rng" where
  "persist_launched pname [] st = st"
| "persist_launched pname (i # rest) (nodes_to_add, pending, new_nodes, r) =
     (let (tok, r1) = token_hex r;
          node = \<lparr>node_id = tok, node_provider = pname, instance_id = inst_instance_id i,
                   gpu_type = inst_gpu_type i, hourly_cost = inst_hourly_cost i,
                   node_status = ''available'', current_project_id = None,
                   performance_score = 1, region = inst_region i\<rparr>
      in persist_launched pname rest
           (nodes_to_add - 1, pending @ [node], new_nodes @ [node_id node], r1))"

text \<open>The outer loop over the provider names; \<open>self.providers[provider_name]\<close> raises
  \<open>KeyError\<close> for a name the table lacks.\<close>

fun scale_up_loop ::
  "(string \<rightharpoonup> provider) \<Rightarrow> string list \<Rightarrow> int \<times> gpu_node list \<times> string list \<times> rng
     \<Rightarrow> py_error + int \<times> gpu_node list \<times> string list \<times> rng" where
  "scale_up_loop ps [] st = Inr st"
| "scale_up_loop ps (pname # rest) (nodes_to_add, pending, new_nodes, r) =
     (if nodes_to_add \<le> 0 then Inr (nodes_to_add, pending, new_nodes, r)
      else case ps pname of
             None \<Rightarrow> Inl KeyError
           | Some p \<Rightarrow>
              (let (launched, r1) = launch_instances p (min nodes_to_add 5) ''rtx4090'' r
               in scale_up_loop ps rest
                    (persist_launched pname launched (nodes_to_add, pending, new_nodes, r1))))"

definition scale_up ::
  "(string \<rightharpoonup> provider) \<Rightarrow> int \<Rightarrow> gpu_node list \<Rightarrow> rng
     \<Rightarrow> (py_error + string list) \<times> gpu_node list \<times> rng" where
  "scale_up ps required_capacity nodes r =
     (let current_nodes = int (length (filter (\<lambda>n. node_status n = ''available'') nodes))
      in if current_nodes \<ge> required_capacity then (Inr [], nodes, r)
         else case scale_up_loop ps [''vast'', ''runpod'', ''lambda'']
                     (required_capacity - current_nodes, [], [], r) of
                Inl e \<Rightarrow> (Inl e, nodes, r)
              | Inr (_, pending, new_nodes, r') \<Rightarrow> (Inr new_nodes, nodes @ pending, r'))"

text \<open>
  \<open>Query.limit(n)\<close> hands \<open>n\<close> to the database as it is.  The engine is SQLite unless
  \<open>DATABASE_URL\<close> says otherwise, and SQLite's \<open>LIMIT\<close> with a negative count is no
  limit: every row is returned.
\<close>

definition limit_rows :: "int \<Rightarrow> 'a list \<Rightarrow> 'a list" where
  "limit_rows n rows = (if n < 0 then rows else take (nat n) rows)"

text \<open>
  The query of \<open>scale_down\<close>: the rows are named by their position in the table, the
  order is by \<open>hourly_cost\<close> descending, rows of equal cost in table order, and
  \<open>limit(excess_capacity)\<close> is applied to them.  The endpoint passes its \<open>count: int\<close>
  on unchecked, so \<open>excess_capacity\<close> is any integer.
\<close>

definition idle_nodes :: "gpu_node list \<Rightarrow> int \<Rightarrow> nat list" where
  "idle_nodes nodes excess_capacity =
     limit_rows excess_capacity
       (sort_key (\<lambda>i. - hourly_cost (nodes ! i))
          (filter (\<lambda>i. node_status (nodes ! i) = ''available''
                        \<and> current_project_id (nodes ! i) = None)
             [0..<length nodes]))"

fun terminate_loop ::
  "(string \<rightharpoonup> provider) \<Rightarrow> nat list \<Rightarrow> gpu_node list \<Rightarrow> string list
     \<Rightarrow> py_error + gpu_node list \<times> string list" where
  "terminate_loop ps [] nodes terminated = Inr (nodes, terminated)"
| "terminate_loop ps (i # rest) nodes terminated =
     (case ps (node_provider (nodes ! i)) of
        None \<Rightarrow> Inl KeyError
      | Some p \<Rightarrow>
          if terminate_instance p (instance_id (nodes ! i))
          then terminate_loop ps rest
                 (nodes[i := (nodes ! i)\<lparr>node_status := ''terminated''\<rparr>])
                 (terminated @ [node_id (nodes ! i)])
          else terminate_loop ps rest nodes terminated)"

definition scale_down ::
  "(string \<rightharpoonup> provider) \<Rightarrow> int \<Rightarrow> gpu_node list \<Rightarrow> (py_error + string list) \<times> gpu_node list" where
  "scale_down ps excess_capacity nodes =
     (case terminate_loop ps (idle_nodes nodes excess_capacity) nodes [] of
        Inl e \<Rightarrow> (Inl e, nodes)
      | Inr (nodes', terminated) \<Rightarrow> (Inr terminated, nodes'))"

definition required_gpu_types :: "int \<Rightarrow> string list" where
  "required_gpu_types minutes =
     (if minutes \<le> 30 then [''rtx4090'', ''a100_40gb'']
      else if minutes \<le> 90 then [''a100_40gb'', ''a100_80gb'']
      else [''a100_80gb'', ''h100''])"

text \<open>The query of \<open>assign_project_to_node\<close>: \<open>performance_score\<close> descending, then
  \<open>hourly_cost\<close> ascending, ties in table order.\<close>

definition matching_nodes :: "gpu_node list \<Rightarrow> string list \<Rightarrow> nat list" where
  "matching_nodes nodes gpu_types =
     sort_key (\<lambda>i. (- performance_score (nodes ! i), hourly_cost (nodes ! i)))
       (filter (\<lambda>i. node_status (nodes ! i) = ''available''
                     \<and> gpu_type (nodes ! i) \<in> set gpu_types)
          [0..<length nodes])"

definition assign_project_to_node ::
  "(string \<rightharpoonup> provider) \<Rightarrow> gpu_node list \<Rightarrow> rng \<Rightarrow> string \<Rightarrow> int
     \<Rightarrow> (py_error + string option) \<times> gpu_node list \<times> rng" where
  "assign_project_to_node ps nodes r pid minutes =
     (case matching_nodes nodes (required_gpu_types minutes) of
        [] \<Rightarrow>
          (case scale_up ps 1 nodes r of
             (Inl e, _) \<Rightarrow> (Inl e, nodes, r)
           | (Inr _, nodes', r') \<Rightarrow> (Inr None, nodes', r'))
      | i # _ \<Rightarrow>
          (Inr (Some (node_id (nodes ! i))),
           nodes[i := (nodes ! i)\<lparr>node_status := ''busy'', current_project_id := Some pid\<rparr>],
           r))"

section \<open>The platform's endpoints\<close>

record registration =
  reg_email :: string
  reg_referral_code :: "string option"

record register_response =
  rr_user_id :: string
  rr_credits :: rat

text \<open>
  \<open>register\<close> draws three tokens: the id, the new user's own referral code and the API
  key.  \<open>if registration.referral_code\<close> is false for \<open>None\<close> and for the empty string.
  A user whose \<open>credits\<close> is never assigned gets the column default 0.0 at the insert.
  The referrer is the first row with the code, and that row gets the bonus.  \<open>id\<close>,
  \<open>referral_code\<close> and \<open>api_key\<close> are unique columns.
\<close>

definition platform_register ::
  "platform_db \<Rightarrow> rng \<Rightarrow> registration \<Rightarrow> (py_error + register_response) \<times> platform_db \<times> rng" where
  "platform_register d r reg =
     (case find (\<lambda>u. pu_email u = reg_email reg) (p_users d) of
        Some _ \<Rightarrow> (Inl (HTTPException 400), d, r)
      | None \<Rightarrow>
         (let (tok_id, r1) = token_hex r;
              (tok_ref, r2) = token_hex r1;
              (tok_key, r3) = token_hex r2;
              referrer = (case reg_referral_code reg of
                            None \<Rightarrow> None
                          | Some code \<Rightarrow>
                              if code = [] then None
                              else find (\<lambda>u. pu_referral_code u = code) (p_users d));
              u = \<lparr>pu_id = tok_id, pu_email = reg_email reg,
                    pu_credits = (case referrer of None \<Rightarrow> 0 | Some _ \<Rightarrow> 10),
                    pu_subscription_tier = ''free'',
                    pu_referral_code = tok_ref, pu_referred_by = reg_referral_code reg,
                    pu_api_key = tok_key\<rparr>;
              users1 = (case referrer of
                          None \<Rightarrow> p_users d
                        | Some ref \<Rightarrow>
                            update_first (\<lambda>u. pu_referral_code u = pu_referral_code ref)
                              (\<lambda>u. u\<lparr>pu_credits := pu_credits u + 25\<rparr>) (p_users d))
          in if list_ex (\<lambda>v. pu_id v = tok_id \<or> pu_referral_code v = tok_ref
                              \<or> pu_api_key v = tok_key) (p_users d)
             then (Inl IntegrityError, d, r)
             else (Inr \<lparr>rr_user_id = pu_id u, rr_credits = pu_credits u\<rparr>,
                   d\<lparr>p_users := users1 @ [u]\<rparr>, r3)))"

record create_response =
  cr_project_id :: string
  cr_status :: string
  cr_cost :: rat
  cr_assigned_node :: "string option"

text \<open>
  \<open>create_project\<close>, for the user id of the verified token.  \<open>user\<close> is \<open>None\<close> for an id
  without a row, and \<open>user.subscription_tier\<close> then raises \<open>AttributeError\<close>.  The
  project row is pending until \<open>use_credits\<close> commits, which commits both.
\<close>

definition platform_create_project ::
  "(string \<rightharpoonup> provider) \<Rightarrow> (project_data \<Rightarrow> string) \<Rightarrow> platform_db \<Rightarrow> rng \<Rightarrow> string
     \<Rightarrow> project_data \<Rightarrow> (py_error + create_response) \<times> platform_db \<times> rng" where
  "platform_create_project ps json d r uid pd =
     (case find (\<lambda>u. pu_id u = uid) (p_users d) of
        None \<Rightarrow> (Inl AttributeError, d, r)
      | Some u \<Rightarrow>
         (case SUBSCRIPTION_TIERS (pu_subscription_tier u) of
            None \<Rightarrow> (Inl KeyError, d, r)
          | Some tier \<Rightarrow>
             if max_duration_minutes tier > 0
                \<and> req_duration_minutes pd > max_duration_minutes tier
             then (Inl (HTTPException 403), d, r)
             else
               (case PricingEngine_calculate_project_cost (req_duration_minutes pd)
                       (req_include_script pd) (req_include_storyboard pd) (req_quality pd)
                       False of
                  Inl e \<Rightarrow> (Inl e, d, r)
                | Inr cs \<Rightarrow>
                   if pu_credits u < total cs then (Inl (HTTPException 402), d, r)
                   else
                     (let (ptok, r1) = token_hex r;
                          project_obj =
                            \<lparr>pp_id = ptok, pp_user_id = uid, pp_title = req_title pd,
                              pp_duration_minutes = req_duration_minutes pd,
                              pp_format = req_format pd, pp_status = ''queued'',
                              pp_cost = total cs, pp_metadata = json pd\<rparr>;
                          (ttok, r2) = token_hex r1
                      in case CreditManager_use_credits d ttok uid ptok
                                (req_duration_minutes pd) of
                           (Inl e, _) \<Rightarrow> (Inl e, d, r)
                         | (Inr _, d1) \<Rightarrow>
                            (let d2 = d1\<lparr>p_projects := p_projects d1 @ [project_obj]\<rparr>
                             in case assign_project_to_node ps (gpu_nodes d2) r2 ptok
                                       (req_duration_minutes pd) of
                                  (Inl e, _, _) \<Rightarrow> (Inl e, d2, r2)
                                | (Inr assigned, nodes', r3) \<Rightarrow>
                                   (Inr \<lparr>cr_project_id = ptok, cr_status = ''queued'',
                                          cr_cost = total cs, cr_assigned_node = assigned\<rparr>,
                                    d2\<lparr>gpu_nodes := nodes'\<rparr>, r3))))))"

section \<open>Notions used in the statements\<close>

text \<open>The sum of the credit deltas of the transaction rows of one user.\<close>

definition ledger_sum :: "transaction list \<Rightarrow> string \<Rightarrow> rat" where
  "ledger_sum ts uid =
     sum_list (map transaction_credits (filter (\<lambda>t. transaction_user_id t = uid) ts))"

text \<open>The cached balance of a user id: the \<open>credits\<close> of its row, if it has one.\<close>

definition balance :: "db \<Rightarrow> string \<Rightarrow> rat option" where
  "balance d uid = map_option credits (find (\<lambda>u. user_id u = uid) (users d))"

definition platform_balance :: "platform_db \<Rightarrow> string \<Rightarrow> rat option" where
  "platform_balance d uid = map_option pu_credits (find (\<lambda>u. pu_id u = uid) (p_users d))"

definition empty_db :: db where
  "empty_db = \<lparr>users = [], projects = [], transactions = []\<rparr>"

text \<open>A history of the main application's credit-moving calls, each a request of its
  own: registration, credit purchase, usage debit.\<close>

datatype ledger_call =
    CreateUser string string
  | AddCredits string string rat string "string option"
  | UseCredits string string rat string

fun run_call :: "db \<Rightarrow> ledger_call \<Rightarrow> db" where
  "run_call d (CreateUser tok e) = snd (create_user d tok e)"
| "run_call d (AddCredits tok uid amt descr pay) = snd (add_credits d tok uid amt descr pay)"
| "run_call d (UseCredits tok uid amt descr) = snd (use_credits d tok uid amt descr)"

definition run_calls :: "db \<Rightarrow> ledger_call list \<Rightarrow> db" where
  "run_calls d cs = foldl run_call d cs"

text \<open>The credit deltas of the transaction rows of one user, in the order of the rows, and
  the balance that results when they are added to a starting balance one after the
  other, which is how the code arrives at the cached balance.\<close>

definition ledger_deltas :: "transaction list \<Rightarrow> string \<Rightarrow> rat list" where
  "ledger_deltas ts uid =
     map transaction_credits (filter (\<lambda>t. transaction_user_id t = uid) ts)"

definition ledger_replay :: "rat \<Rightarrow> rat list \<Rightarrow> rat" where
  "ledger_replay start deltas = foldl (+) start deltas"

text \<open>The ledger invariant of the main application: a user's balance is the signup grant
  of 10 with the deltas of the user's transactions added in order, and an id without a
  row has no transactions.\<close>

definition ledger_inv :: "db \<Rightarrow> bool" where
  "ledger_inv d \<longleftrightarrow>
     (\<forall>uid. case find (\<lambda>u. user_id u = uid) (users d) of
              None \<Rightarrow> ledger_deltas (transactions d) uid = []
            | Some u \<Rightarrow> credits u = ledger_replay 10 (ledger_deltas (transactions d) uid))"

text \<open>
  A history of the platform's credit-moving calls: registration, \<open>apply_credits\<close>,
  \<open>CreditManager.use_credits\<close>.  Beside the tables, the run keeps a log of what each
  call that succeeded did to a balance: \<open>Start\<close> is the balance a new user is created
  with, \<open>Bonus\<close> the referral bonus added to the referrer, \<open>Row\<close> a delta that the call
  also wrote as a transaction row.
\<close>

datatype credit_event = Start string rat | Bonus string rat | Row string rat

datatype platform_call =
    Register rng registration
  | ApplyCredits string string rat string string
  | ManagerUseCredits string string string int

definition empty_platform_db :: platform_db where
  "empty_platform_db = \<lparr>p_users = [], p_projects = [], p_transactions = [], gpu_nodes = []\<rparr>"

text \<open>The referrer that \<open>register\<close> looks up.\<close>

definition referrer_of :: "platform_db \<Rightarrow> registration \<Rightarrow> platform_user option" where
  "referrer_of d reg =
     (case reg_referral_code reg of
        None \<Rightarrow> None
      | Some code \<Rightarrow>
          if code = [] then None else find (\<lambda>u. pu_referral_code u = code) (p_users d))"

fun run_platform_call ::
  "platform_db \<times> credit_event list \<Rightarrow> platform_call \<Rightarrow> platform_db \<times> credit_event list" where
  "run_platform_call (d, evs) (Register r reg) =
     (case platform_register d r reg of
        (Inl e, d', _) \<Rightarrow> (d', evs)
      | (Inr resp, d', _) \<Rightarrow>
          (d', evs @ (case referrer_of d reg of
                        None \<Rightarrow> []
                      | Some ref \<Rightarrow> [Bonus (pu_id ref) 25])
                   @ [Start (rr_user_id resp) (rr_credits resp)]))"
| "run_platform_call (d, evs) (ApplyCredits tok uid delta ty descr) =
     (case apply_credits d tok uid delta ty descr of
        (Inl e, d') \<Rightarrow> (d', evs)
      | (Inr b, d') \<Rightarrow> (d', evs @ [Row uid delta]))"
| "run_platform_call (d, evs) (ManagerUseCredits tok uid pid minutes) =
     (case CreditManager_use_credits d tok uid pid minutes of
        (Inl e, d') \<Rightarrow> (d', evs)
      | (Inr res, d') \<Rightarrow> (d', evs @ [Row uid (- credits_used res)]))"

definition run_platform_calls :: "platform_call list \<Rightarrow> platform_db \<times> credit_event list" where
  "run_platform_calls cs = foldl run_platform_call (empty_platform_db, []) cs"

text \<open>What the log says a user's balance is: events of other users pass it by, \<open>Start\<close>
  sets it, \<open>Bonus\<close> and \<open>Row\<close> add to it, in the order of the log.\<close>

fun replay_event :: "string \<Rightarrow> rat option \<Rightarrow> credit_event \<Rightarrow> rat option" where
  "replay_event uid b (Start u s) = (if u = uid then Some s else b)"
| "replay_event uid b (Bonus u a) = (if u = uid then map_option (\<lambda>x. x + a) b else b)"
| "replay_event uid b (Row u a) = (if u = uid then map_option (\<lambda>x. x + a) b else b)"

definition replay :: "credit_event list \<Rightarrow> string \<Rightarrow> rat option" where
  "replay evs uid = foldl (replay_event uid) None evs"

text \<open>The events of the log that were written as transaction rows, in order.\<close>

fun recorded :: "credit_event list \<Rightarrow> (string \<times> rat) list" where
  "recorded [] = []"
| "recorded (Row u a # es) = (u, a) # recorded es"
| "recorded (_ # es) = recorded es"

definition platform_inv :: "platform_db \<times> credit_event list \<Rightarrow> bool" where
  "platform_inv s \<longleftrightarrow>
     distinct (map pu_id (p_users (fst s)))
     \<and> map (\<lambda>t. (transaction_user_id t, transaction_credits t)) (p_transactions (fst s))
         = recorded (snd s)
     \<and> (\<forall>uid. platform_balance (fst s) uid = replay (snd s) uid)"

text \<open>Whether the provider call of \<open>scale_down\<close> for a node reports success.\<close>

definition termination_succeeds :: "(string \<rightharpoonup> provider) \<Rightarrow> gpu_node \<Rightarrow> bool" where
  "termination_succeeds ps n =
     (case ps (node_provider n) of
        None \<Rightarrow> False
      | Some p \<Rightarrow> terminate_instance p (instance_id n))"

text \<open>The local variable \<open>nodes_to_add\<close> of \<open>scale_up\<close>: the requested capacity less
  the nodes already available.\<close>

definition nodes_to_add :: "int \<Rightarrow> gpu_node list \<Rightarrow> int" where
  "nodes_to_add required_capacity nodes =
     required_capacity - int (length (filter (\<lambda>n. node_status n = ''available'') nodes))"

text \<open>For the examples: a serialiser that keeps the title, and a supply of tokens
  \<open>a\<close>, \<open>aa\<close>, \<open>aaa\<close> and so on.\<close>

definition example_json :: "project_data \<Rightarrow> string" where
  "example_json pd = req_title pd"

definition example_rng :: rng where
  "example_rng i = replicate (Suc i) CHR ''a''"

text \<open>A small cluster for the examples: a busy node and two idle ones, and a table of
  providers in which RunPod refuses to terminate.\<close>

definition example_nodes :: "gpu_node list" where
  "example_nodes =
     [\<lparr>node_id = ''n1'', node_provider = ''vast'', instance_id = ''vast_1'',
        gpu_type = ''rtx4090'', hourly_cost = 35 / 100, node_status = ''busy'',
        current_project_id = Some ''p9'', performance_score = 1, region = ''us-west-2''\<rparr>,
      \<lparr>node_id = ''n2'', node_provider = ''runpod'', instance_id = ''runpod_1'',
        gpu_type = ''rtx4090'', hourly_cost = 44 / 100, node_status = ''available'',
        current_project_id = None, performance_score = 1, region = ''us-east-1''\<rparr>,
      \<lparr>node_id = ''n3'', node_provider = ''vast'', instance_id = ''vast_2'',
        gpu_type = ''a100_40gb'', hourly_cost = 99 / 100, node_status = ''available'',
        current_project_id = None, performance_score = 1, region = ''us-west-2''\<rparr>]"

definition example_providers :: "string \<rightharpoonup> provider" where
  "example_providers =
     default_providers(''runpod'' \<mapsto> RunPodProvider\<lparr>terminate_instance := (\<lambda>_. False)\<rparr>)"

section \<open>Pricing\<close>

lemmas pricing_consts =
  PRICING_script_per_minute_def PRICING_video_per_minute_def PRICING_storyboard_flat_def
  PRICING_quality_multipliers_def BASE_RATES_script_per_minute_def
  BASE_RATES_video_per_minute_def BASE_RATES_storyboard_flat_def BASE_RATES_rush_multiplier_def
  BASE_RATES_premium_quality_def GPU_COSTS_a100_40gb_def

lemma if_Inl_else_Inr_eq: "((if P then Inl e else Inr x) = Inr c) = (\<not> P \<and> x = c)"
  by simp

lemma PricingEngine_Inr:
  assumes "PricingEngine_calculate_project_cost d s b q r = Inr c"
  shows "total c = subtotal c + quality_fee c + rush_fee c
    \<and> subtotal c = video_generation c + script_writing c + storyboarding c
    \<and> quality_fee c
        = (if q = ''premium'' then subtotal c * (BASE_RATES_premium_quality - 1) else 0)
    \<and> rush_fee c = (if r then subtotal c * (BASE_RATES_rush_multiplier - 1) else 0)
    \<and> total c \<noteq> 0"
  by (insert assms, unfold PricingEngine_calculate_project_cost_def Let_def if_Inl_else_Inr_eq,
      clarify, simp)

lemma calculate_project_cost_fields:
  "pc_total (calculate_project_cost d s b q)
     = pc_subtotal (calculate_project_cost d s b q)
       * pc_quality_multiplier (calculate_project_cost d s b q)"
  "pc_subtotal (calculate_project_cost d s b q) =
      cb_video (pc_breakdown (calculate_project_cost d s b q))
      + cb_script (pc_breakdown (calculate_project_cost d s b q))
      + cb_storyboard (pc_breakdown (calculate_project_cost d s b q))"
  "pc_quality_multiplier (calculate_project_cost d s b q)
     = (case PRICING_quality_multipliers q of Some m \<Rightarrow> m | None \<Rightarrow> 1)"
  by (simp_all add: calculate_project_cost_def Let_def)

text \<open>The engine's subtotal is an integer, and it is 0 only for a film of no minutes
  without a storyboard; the two fees scale it by a positive factor.\<close>

lemma PricingEngine_subtotal_zero:
  "of_int d * BASE_RATES_video_per_minute
     + (if s then of_int d * BASE_RATES_script_per_minute else 0)
     + (if b then BASE_RATES_storyboard_flat else 0) = (0::rat) \<longleftrightarrow> d = 0 \<and> \<not> b"
proof -
  have "of_int d * BASE_RATES_video_per_minute
     + (if s then of_int d * BASE_RATES_script_per_minute else 0)
     + (if b then BASE_RATES_storyboard_flat else 0)
     = (of_int (3 * d + (if s then d else 0) + (if b then 10 else 0)) :: rat)"
    by (simp add: pricing_consts)
  moreover have "3 * d + (if s then d else 0) + (if b then 10 else 0) = 0 \<longleftrightarrow> d = 0 \<and> \<not> b"
    by (cases s; cases b; simp; arith)
  ultimately show ?thesis by (simp only: of_int_eq_0_iff)
qed

lemma PricingEngine_total_factor:
  "sub + (if p then sub * (BASE_RATES_premium_quality - 1) else 0)
       + (if r then sub * (BASE_RATES_rush_multiplier - 1) else 0) = (0::rat) \<longleftrightarrow> sub = 0"
proof -
  have "sub + (if p then sub * (BASE_RATES_premium_quality - 1) else 0)
       + (if r then sub * (BASE_RATES_rush_multiplier - 1) else 0)
      = sub * (1 + (if p then 1 / 2 else 0) + (if r then 1 else 0))"
    by (simp add: pricing_consts algebra_simps)
  moreover have "(1 + (if p then 1 / 2 else 0) + (if r then 1 else 0) :: rat) \<noteq> 0"
    by simp
  ultimately show ?thesis by simp
qed

text \<open>The engine returns a breakdown for every input but one kind: no minutes and no
  storyboard, where the total is 0 and the profit percentage divides by it.\<close>

lemma PricingEngine_returns:
  "(\<exists>c. PricingEngine_calculate_project_cost d s b q r = Inr c) \<longleftrightarrow> \<not> (d = 0 \<and> \<not> b)"
  unfolding PricingEngine_calculate_project_cost_def Let_def
  by (simp only: PricingEngine_total_factor PricingEngine_subtotal_zero
      if_distrib[of "\<lambda>x. \<exists>c. x = Inr c"] sum.simps simp_thms if_cancel split: if_splits)

text \<open>Scenario B of the specification: 60 minutes, standard quality, script and
  storyboard.\<close>

lemma scenario_B_engine:
  "case PricingEngine_calculate_project_cost 60 True True ''standard'' False of
     Inl e \<Rightarrow> False
   | Inr c \<Rightarrow> video_generation c = 180 \<and> script_writing c = 60 \<and> storyboarding c = 10
              \<and> subtotal c = 250 \<and> total c = 250"
  by (simp add: PricingEngine_calculate_project_cost_def Let_def pricing_consts)

lemma scenario_B_pricing:
  "pc_total (calculate_project_cost 60 True True ''standard'') = 250"
  by (simp add: calculate_project_cost_def Let_def pricing_consts)

text \<open>
  C1.  Whatever the duration, the options, the quality string and the rush flag: a
  breakdown returned by \<open>PricingEngine.calculate_project_cost\<close> has
  \<open>total = subtotal + quality_fee + rush_fee\<close> and
  \<open>subtotal = video_generation + script_writing + storyboarding\<close>; and the result of
  \<open>pricing.calculate_project_cost\<close>, which has no rush option and reports the quality
  multiplier instead of a fee, has \<open>subtotal = video + script + storyboard\<close> and
  \<open>total = subtotal + subtotal * (quality_multiplier - 1) + 0\<close>.
\<close>

theorem pricing_totals_add_up:
  "(PricingEngine_calculate_project_cost d s b q r = Inr c \<longrightarrow>
      total c = subtotal c + quality_fee c + rush_fee c \<and>
      subtotal c = video_generation c + script_writing c + storyboarding c) \<and>
   pc_total (calculate_project_cost d s b q) =
      pc_subtotal (calculate_project_cost d s b q)
      + pc_subtotal (calculate_project_cost d s b q)
          * (pc_quality_multiplier (calculate_project_cost d s b q) - 1)
      + 0 \<and>
   pc_subtotal (calculate_project_cost d s b q) =
      cb_video (pc_breakdown (calculate_project_cost d s b q))
      + cb_script (pc_breakdown (calculate_project_cost d s b q))
      + cb_storyboard (pc_breakdown (calculate_project_cost d s b q))"
proof (intro conjI impI)
  assume "PricingEngine_calculate_project_cost d s b q r = Inr c"
  from PricingEngine_Inr[OF this]
  show "total c = subtotal c + quality_fee c + rush_fee c"
    and "subtotal c = video_generation c + script_writing c + storyboarding c"
    by blast+
next
  show "pc_total (calculate_project_cost d s b q) =
      pc_subtotal (calculate_project_cost d s b q)
      + pc_subtotal (calculate_project_cost d s b q)
          * (pc_quality_multiplier (calculate_project_cost d s b q) - 1)
      + 0"
    by (simp only: calculate_project_cost_fields(1)) (simp add: algebra_simps)
next
  show "pc_subtotal (calculate_project_cost d s b q) =
      cb_video (pc_breakdown (calculate_project_cost d s b q))
      + cb_script (pc_breakdown (calculate_project_cost d s b q))
      + cb_storyboard (pc_breakdown (calculate_project_cost d s b q))"
    by (rule calculate_project_cost_fields(2))
qed

theorem pricing_totals_add_up_witness:
  "\<exists>c. PricingEngine_calculate_project_cost 60 True True ''standard'' False = Inr c \<and>
       total c = 250 \<and> total c = subtotal c + quality_fee c + rush_fee c \<and>
       subtotal c = video_generation c + script_writing c + storyboarding c"
proof -
  from scenario_B_engine
  obtain c where c: "PricingEngine_calculate_project_cost 60 True True ''standard'' False = Inr c"
    and t: "total c = 250"
    by (auto split: sum.splits)
  from pricing_totals_add_up[of 60 True True "''standard''" False c] c
  have "total c = subtotal c + quality_fee c + rush_fee c \<and>
      subtotal c = video_generation c + script_writing c + storyboarding c" by blast
  with c t show ?thesis by blast
qed

text \<open>
  C4, as the specification states it, fails on the engine: for the quality \<open>ultra\<close>,
  which the table of \<open>pricing.py\<close> prices at 2.0, the engine charges no quality fee on
  a subtotal of 250, where the claim has a fee of \<open>250 * (2.0 - 1)\<close>.
\<close>

theorem quality_fee_ultra_counterexample:
  "PRICING_quality_multipliers ''ultra'' = Some 2 \<and>
   map_sum id quality_fee (PricingEngine_calculate_project_cost 60 True True ''ultra'' False)
     = Inr 0 \<and>
   map_sum id subtotal (PricingEngine_calculate_project_cost 60 True True ''ultra'' False)
     = Inr 250"
  by (simp add: PricingEngine_calculate_project_cost_def Let_def pricing_consts)

text \<open>
  C4, amended.  \<open>pricing.calculate_project_cost\<close> looks the multiplier up in the table
  standard 1.0, premium 1.5, ultra 2.0, takes 1.0 for any other quality string, and
  charges \<open>total = subtotal * multiplier\<close>, so that the fee for quality,
  \<open>total - subtotal\<close>, is \<open>subtotal * (multiplier - 1)\<close>.  The engine knows one
  surcharge: its \<open>quality_fee\<close> is \<open>subtotal * (1.5 - 1)\<close> for \<open>premium\<close> and 0 for every
  other quality string.
\<close>

theorem quality_fee_by_calculator:
  "pc_quality_multiplier (calculate_project_cost d s b q) =
      (if q = ''standard'' then 1 else if q = ''premium'' then 3 / 2
       else if q = ''ultra'' then 2 else 1) \<and>
   pc_total (calculate_project_cost d s b q)
     = pc_subtotal (calculate_project_cost d s b q)
       * pc_quality_multiplier (calculate_project_cost d s b q) \<and>
   pc_total (calculate_project_cost d s b q) - pc_subtotal (calculate_project_cost d s b q)
     = pc_subtotal (calculate_project_cost d s b q)
       * (pc_quality_multiplier (calculate_project_cost d s b q) - 1) \<and>
   (PricingEngine_calculate_project_cost d s b q r = Inr c \<longrightarrow>
      quality_fee c = subtotal c * ((if q = ''premium'' then 3 / 2 else 1) - 1))"
proof (intro conjI impI)
  show "pc_quality_multiplier (calculate_project_cost d s b q) =
      (if q = ''standard'' then 1 else if q = ''premium'' then 3 / 2
       else if q = ''ultra'' then 2 else 1)"
    by (simp add: calculate_project_cost_fields(3) PRICING_quality_multipliers_def)
next
  show "pc_total (calculate_project_cost d s b q)
     = pc_subtotal (calculate_project_cost d s b q)
       * pc_quality_multiplier (calculate_project_cost d s b q)"
    by (rule calculate_project_cost_fields(1))
next
  show "pc_total (calculate_project_cost d s b q) - pc_subtotal (calculate_project_cost d s b q)
     = pc_subtotal (calculate_project_cost d s b q)
       * (pc_quality_multiplier (calculate_project_cost d s b q) - 1)"
    by (simp only: calculate_project_cost_fields(1)) (simp add: algebra_simps)
next
  assume "PricingEngine_calculate_project_cost d s b q r = Inr c"
  from PricingEngine_Inr[OF this]
  show "quality_fee c = subtotal c * ((if q = ''premium'' then 3 / 2 else 1) - 1)"
    by (simp add: BASE_RATES_premium_quality_def)
qed

theorem quality_fee_by_calculator_witness:
  "\<exists>c. PricingEngine_calculate_project_cost 60 True True ''premium'' False = Inr c \<and>
       quality_fee c = 125 \<and>
       pc_quality_multiplier (calculate_project_cost 60 True True ''ultra'') = 2 \<and>
       pc_total (calculate_project_cost 60 True True ''ultra'') = 500"
proof -
  have "case PricingEngine_calculate_project_cost 60 True True ''premium'' False of
          Inl e \<Rightarrow> False | Inr c \<Rightarrow> subtotal c = 250"
    by (simp add: PricingEngine_calculate_project_cost_def Let_def pricing_consts)
  then obtain c where c: "PricingEngine_calculate_project_cost 60 True True ''premium'' False = Inr c"
    and t: "subtotal c = 250"
    by (auto split: sum.splits)
  have p: "pc_subtotal (calculate_project_cost 60 True True ''ultra'') = 250"
    by (simp add: calculate_project_cost_def Let_def pricing_consts)
  from quality_fee_by_calculator[of 60 True True "''premium''" False c] c t
  have "quality_fee c = 125" by simp
  moreover from quality_fee_by_calculator[of 60 True True "''ultra''" False c] p
  have "pc_quality_multiplier (calculate_project_cost 60 True True ''ultra'') = 2 \<and>
       pc_total (calculate_project_cost 60 True True ''ultra'') = 500" by simp
  ultimately show ?thesis using c by blast
qed

section \<open>Rows found and changed\<close>

lemma find_update_first:
  "(\<And>x. P x \<Longrightarrow> P (f x)) \<Longrightarrow> find P (update_first P f xs) = map_option f (find P xs)"
  by (induction xs) auto

lemma update_first_none: "find P xs = None \<Longrightarrow> update_first P f xs = xs"
  by (induction xs) (auto split: if_splits)

lemma length_update_first: "length (update_first P f xs) = length xs"
  by (induction xs) auto

lemma find_append_single:
  "find P (xs @ [x])
     = (case find P xs of Some y \<Rightarrow> Some y | None \<Rightarrow> if P x then Some x else None)"
  by (induction xs) auto

lemma find_user_update_other:
  "v \<noteq> uid \<Longrightarrow>
     find (\<lambda>u. user_id u = v)
       (update_first (\<lambda>u. user_id u = uid) (\<lambda>u. u\<lparr>credits := g u\<rparr>) xs)
     = find (\<lambda>u. user_id u = v) xs"
  by (induction xs) auto

section \<open>The credit ledger\<close>

text \<open>
  C5, as the specification states it, fails on \<open>crud.use_credits\<close> and
  \<open>crud.add_credits\<close>: for a user id without a row they return normally, with nothing
  written, where the claim has them fail with a user-not-found error.
\<close>

theorem crud_unknown_user_counterexample:
  "use_credits empty_db ''t1'' ''nobody'' 5 ''Project: Film'' = (Inr (), empty_db) \<and>
   add_credits empty_db ''t1'' ''nobody'' 5 ''Credit purchase'' None = (Inr (), empty_db)"
  by (simp add: use_credits_def add_credits_def empty_db_def)

text \<open>
  C5, amended.  For a user id that has a row, \<open>CreditManager.apply_credits\<close> appends
  exactly one transaction row carrying the delta, changes the balance by exactly the
  delta, whatever its sign and however low the balance gets, and returns the new balance;
  \<open>crud.add_credits\<close> and \<open>crud.use_credits\<close> do the same with the delta \<open>amount\<close> and
  \<open>-amount\<close>.  For a user id without a row \<open>apply_credits\<close> raises
  \<open>ValueError("User not found")\<close> and writes nothing, while the two \<open>crud\<close> operations
  return normally and write nothing.
\<close>

theorem ledger_apply_effect:
  "(find (\<lambda>u. pu_id u = uid) (p_users d) = Some u \<longrightarrow>
      fst (apply_credits d tok uid delta ty descr) = Inr (pu_credits u + delta) \<and>
      p_transactions (snd (apply_credits d tok uid delta ty descr))
        = p_transactions d @
            [\<lparr>transaction_id = tok, transaction_user_id = uid, transaction_type = ty,
              amount = None, transaction_credits = delta, description = descr,
              stripe_payment_id = None\<rparr>] \<and>
      platform_balance (snd (apply_credits d tok uid delta ty descr)) uid
        = Some (pu_credits u + delta)) \<and>
   (find (\<lambda>u. pu_id u = uid) (p_users d) = None \<longrightarrow>
      apply_credits d tok uid delta ty descr = (Inl (ValueError ''User not found''), d)) \<and>
   (find (\<lambda>u. user_id u = uid') (users d') = Some u' \<longrightarrow>
      fst (use_credits d' tok uid' amt descr) = Inr () \<and>
      transactions (snd (use_credits d' tok uid' amt descr))
        = transactions d' @
            [\<lparr>transaction_id = tok, transaction_user_id = uid', transaction_type = ''usage'',
              amount = Some (- amt), transaction_credits = - amt, description = descr,
              stripe_payment_id = None\<rparr>] \<and>
      balance (snd (use_credits d' tok uid' amt descr)) uid' = Some (credits u' - amt) \<and>
      fst (add_credits d' tok uid' amt descr pay) = Inr () \<and>
      transactions (snd (add_credits d' tok uid' amt descr pay))
        = transactions d' @
            [\<lparr>transaction_id = tok, transaction_user_id = uid', transaction_type = ''purchase'',
              amount = Some amt, transaction_credits = amt, description = descr,
              stripe_payment_id = pay\<rparr>] \<and>
      balance (snd (add_credits d' tok uid' amt descr pay)) uid' = Some (credits u' + amt)) \<and>
   (find (\<lambda>u. user_id u = uid') (users d') = None \<longrightarrow>
      use_credits d' tok uid' amt descr = (Inr (), d') \<and>
      add_credits d' tok uid' amt descr pay = (Inr (), d'))"
  by (simp add: apply_credits_def use_credits_def add_credits_def platform_balance_def
      balance_def find_update_first)

theorem ledger_apply_effect_witness:
  "platform_balance
     (snd (apply_credits
        \<lparr>p_users = [\<lparr>pu_id = ''u1'', pu_email = ''a@example.com'', pu_credits = 3,
            pu_subscription_tier = ''free'', pu_referral_code = ''c1'',
            pu_referred_by = None, pu_api_key = ''k1''\<rparr>],
          p_projects = [], p_transactions = [], gpu_nodes = []\<rparr>
        ''t1'' ''u1'' (- 5) ''usage'' ''debit'')) ''u1'' = Some (- 2) \<and>
   fst (apply_credits
        \<lparr>p_users = [], p_projects = [], p_transactions = [], gpu_nodes = []\<rparr>
        ''t1'' ''u1'' (- 5) ''usage'' ''debit'') = Inl (ValueError ''User not found'') \<and>
   balance (snd (use_credits
        \<lparr>users = [\<lparr>user_id = ''u1'', email = ''a@example.com'', credits = 10,
            subscription_tier = ''free'', is_admin = False\<rparr>],
          projects = [], transactions = []\<rparr> ''t1'' ''u1'' 4 ''debit'')) ''u1''
     = Some 6 \<and>
   use_credits \<lparr>users = [], projects = [], transactions = []\<rparr> ''t1'' ''u1'' 4 ''debit''
     = (Inr (), \<lparr>users = [], projects = [], transactions = []\<rparr>)"
proof -
  let ?u = "\<lparr>pu_id = ''u1'', pu_email = ''a@example.com'', pu_credits = 3,
            pu_subscription_tier = ''free'', pu_referral_code = ''c1'',
            pu_referred_by = None, pu_api_key = ''k1''\<rparr>"
  let ?d = "\<lparr>p_users = [?u], p_projects = [], p_transactions = [], gpu_nodes = []\<rparr>"
  let ?v = "\<lparr>user_id = ''u1'', email = ''a@example.com'', credits = 10,
            subscription_tier = ''free'', is_admin = False\<rparr>"
  let ?e = "\<lparr>users = [?v], projects = [], transactions = []\<rparr>"
  have 1: "find (\<lambda>u. pu_id u = ''u1'') (p_users ?d) = Some ?u" by simp
  have 2: "find (\<lambda>u. user_id u = ''u1'') (users ?e) = Some ?v" by simp
  have 3: "find (\<lambda>u. pu_id u = ''u1'')
             (p_users \<lparr>p_users = [], p_projects = [], p_transactions = [], gpu_nodes = []\<rparr>) = None"
    by simp
  have 4: "find (\<lambda>u. user_id u = ''u1'')
             (users \<lparr>users = [], projects = [], transactions = []\<rparr>) = None"
    by simp
  from ledger_apply_effect[of "''u1''" ?d ?u "''t1''" "- 5" "''usage''" "''debit''"
      "''u1''" ?e ?v 4 None] 1 2
  have a: "platform_balance (snd (apply_credits ?d ''t1'' ''u1'' (- 5) ''usage'' ''debit'')) ''u1''
             = Some (- 2)"
    and b: "balance (snd (use_credits ?e ''t1'' ''u1'' 4 ''debit'')) ''u1'' = Some 6"
    by simp_all
  from ledger_apply_effect[of "''u1''"
      "\<lparr>p_users = [], p_projects = [], p_transactions = [], gpu_nodes = []\<rparr>" ?u "''t1''" "- 5"
      "''usage''" "''debit''" "''u1''" "\<lparr>users = [], projects = [], transactions = []\<rparr>" ?v 4
      None] 3 4
  have c: "fst (apply_credits
        \<lparr>p_users = [], p_projects = [], p_transactions = [], gpu_nodes = []\<rparr>
        ''t1'' ''u1'' (- 5) ''usage'' ''debit'') = Inl (ValueError ''User not found'')"
    and e: "use_credits \<lparr>users = [], projects = [], transactions = []\<rparr> ''t1'' ''u1'' 4 ''debit''
     = (Inr (), \<lparr>users = [], projects = [], transactions = []\<rparr>)"
    by simp_all
  from a b c e show ?thesis by blast
qed

text \<open>The calls of the main application keep its ledger invariant.\<close>

lemma ledger_deltas_append:
  "ledger_deltas (ts @ [t]) uid
     = ledger_deltas ts uid @ (if transaction_user_id t = uid then [transaction_credits t] else [])"
  by (simp add: ledger_deltas_def)

lemma ledger_replay_snoc: "ledger_replay s (ds @ [d]) = ledger_replay s ds + d"
  by (simp add: ledger_replay_def)

lemma ledger_inv_empty: "ledger_inv empty_db"
  by (simp add: ledger_inv_def empty_db_def ledger_deltas_def)

lemma ledger_inv_create_user:
  assumes "ledger_inv d"
  shows "ledger_inv (snd (create_user d tok e))"
proof (cases "list_ex (\<lambda>v. user_id v = tok \<or> email v = e) (users d)")
  case True
  then show ?thesis using assms by (simp add: create_user_def Let_def)
next
  case False
  show ?thesis
    unfolding ledger_inv_def
  proof
    fix uid
    from assms have "case find (\<lambda>u. user_id u = uid) (users d) of
              None \<Rightarrow> ledger_deltas (transactions d) uid = []
            | Some u \<Rightarrow> credits u = ledger_replay 10 (ledger_deltas (transactions d) uid)"
      unfolding ledger_inv_def by (rule spec)
    with False
    show "case find (\<lambda>u. user_id u = uid) (users (snd (create_user d tok e))) of
              None \<Rightarrow> ledger_deltas (transactions (snd (create_user d tok e))) uid = []
            | Some u \<Rightarrow> credits u
                = ledger_replay 10 (ledger_deltas (transactions (snd (create_user d tok e))) uid)"
      by (simp add: create_user_def Let_def find_append_single ledger_replay_def
          split: option.splits)
  qed
qed

lemma ledger_inv_move:
  assumes "ledger_inv d"
    and "transaction_user_id t = uid" and "transaction_credits t = delta"
    and "find (\<lambda>u. user_id u = uid) (users d) = Some w"
  shows "ledger_inv (d\<lparr>users := update_first (\<lambda>u. user_id u = uid)
                             (\<lambda>u. u\<lparr>credits := credits u + delta\<rparr>) (users d),
                       transactions := transactions d @ [t]\<rparr>)"
  unfolding ledger_inv_def
proof
  fix v
  from assms(1) have inv: "case find (\<lambda>u. user_id u = v) (users d) of
              None \<Rightarrow> ledger_deltas (transactions d) v = []
            | Some u \<Rightarrow> credits u = ledger_replay 10 (ledger_deltas (transactions d) v)"
    unfolding ledger_inv_def by (rule spec)
  let ?d = "d\<lparr>users := update_first (\<lambda>u. user_id u = uid)
                             (\<lambda>u. u\<lparr>credits := credits u + delta\<rparr>) (users d),
                       transactions := transactions d @ [t]\<rparr>"
  show "case find (\<lambda>u. user_id u = v) (users ?d) of
              None \<Rightarrow> ledger_deltas (transactions ?d) v = []
            | Some u \<Rightarrow> credits u = ledger_replay 10 (ledger_deltas (transactions ?d) v)"
  proof (cases "v = uid")
    case True
    have "find (\<lambda>u. user_id u = uid) (users ?d)
            = map_option (\<lambda>u. u\<lparr>credits := credits u + delta\<rparr>)
                (find (\<lambda>u. user_id u = uid) (users d))"
      by (simp add: find_update_first)
    with inv True assms(2,3,4) show ?thesis
      by (simp add: ledger_deltas_append ledger_replay_snoc)
  next
    case False
    have "find (\<lambda>u. user_id u = v) (users ?d) = find (\<lambda>u. user_id u = v) (users d)"
      using False by (simp add: find_user_update_other)
    with inv False assms(2) show ?thesis
      by (auto simp: ledger_deltas_append split: option.splits)
  qed
qed

lemma ledger_inv_run_call: "ledger_inv d \<Longrightarrow> ledger_inv (run_call d c)"
proof (cases c)
  case (CreateUser tok e)
  assume "ledger_inv d"
  with CreateUser show ?thesis by (simp add: ledger_inv_create_user)
next
  case (AddCredits tok uid amt descr pay)
  assume inv: "ledger_inv d"
  show ?thesis
  proof (cases "find (\<lambda>u. user_id u = uid) (users d)")
    case None
    with inv AddCredits show ?thesis by (simp add: add_credits_def)
  next
    case (Some w)
    from ledger_inv_move[OF inv _ _ Some, where delta = amt] Some AddCredits
    show ?thesis by (simp add: add_credits_def)
  qed
next
  case (UseCredits tok uid amt descr)
  assume inv: "ledger_inv d"
  show ?thesis
  proof (cases "find (\<lambda>u. user_id u = uid) (users d)")
    case None
    with inv UseCredits show ?thesis by (simp add: use_credits_def)
  next
    case (Some w)
    from ledger_inv_move[OF inv _ _ Some, where delta = "- amt"] Some UseCredits
    show ?thesis by (simp add: use_credits_def)
  qed
qed

lemma ledger_inv_foldl: "ledger_inv d \<Longrightarrow> ledger_inv (foldl run_call d cs)"
  by (induction cs arbitrary: d) (simp_all add: ledger_inv_run_call)

lemma ledger_inv_run_calls:
  "case balance (run_calls empty_db cs) uid of
      None \<Rightarrow> ledger_deltas (transactions (run_calls empty_db cs)) uid = []
    | Some b \<Rightarrow> b = ledger_replay 10 (ledger_deltas (transactions (run_calls empty_db cs)) uid)"
proof -
  have "ledger_inv (run_calls empty_db cs)"
    unfolding run_calls_def by (rule ledger_inv_foldl[OF ledger_inv_empty])
  then have "case find (\<lambda>u. user_id u = uid) (users (run_calls empty_db cs)) of
      None \<Rightarrow> ledger_deltas (transactions (run_calls empty_db cs)) uid = []
    | Some u \<Rightarrow> credits u
        = ledger_replay 10 (ledger_deltas (transactions (run_calls empty_db cs)) uid)"
    unfolding ledger_inv_def by (rule spec)
  then show ?thesis
    by (simp add: balance_def split: option.splits)
qed

text \<open>The calls of the platform keep its invariant: the ids are distinct, the transaction
  rows are the recorded events, and every balance is what the log says.\<close>

lemma map_pu_id_update_first:
  "(\<And>x. pu_id (f x) = pu_id x) \<Longrightarrow> map pu_id (update_first P f xs) = map pu_id xs"
  by (induction xs) auto

lemma find_platform_user_update:
  assumes "\<And>x. pu_id (f x) = pu_id x"
  shows "find (\<lambda>u. pu_id u = v) (update_first (\<lambda>u. pu_id u = w) f xs)
           = (if v = w then map_option f (find (\<lambda>u. pu_id u = w) xs)
              else find (\<lambda>u. pu_id u = v) xs)"
  by (induction xs) (auto simp: assms)

lemma find_distinct_member:
  "distinct (map pu_id xs) \<Longrightarrow> x \<in> set xs \<Longrightarrow> find (\<lambda>u. pu_id u = pu_id x) xs = Some x"
  by (induction xs) auto

lemma find_Some_member: "find P xs = Some x \<Longrightarrow> x \<in> set xs \<and> P x"
  by (induction xs) (auto split: if_splits)

lemma update_first_by_code_is_by_id:
  "distinct (map pu_id xs) \<Longrightarrow> find (\<lambda>u. pu_referral_code u = c) xs = Some ref \<Longrightarrow>
     update_first (\<lambda>u. pu_referral_code u = c) f xs
       = update_first (\<lambda>u. pu_id u = pu_id ref) f xs"
proof (induction xs)
  case Nil
  then show ?case by simp
next
  case (Cons x rest)
  show ?case
  proof (cases "pu_referral_code x = c")
    case True
    with Cons.prems(2) have "ref = x" by simp
    with True show ?thesis by simp
  next
    case False
    with Cons.prems(2) have f: "find (\<lambda>u. pu_referral_code u = c) rest = Some ref" by simp
    then have "ref \<in> set rest" using find_Some_member by fast
    with Cons.prems(1) have "pu_id x \<noteq> pu_id ref" by auto
    moreover from Cons.prems(1) have "distinct (map pu_id rest)" by simp
    ultimately show ?thesis using False Cons.IH f by simp
  qed
qed

lemma replay_append:
  "replay (evs @ es) uid = foldl (replay_event uid) (replay evs uid) es"
  by (simp add: replay_def)

lemma recorded_append: "recorded (evs @ es) = recorded evs @ recorded es"
  by (induction evs rule: recorded.induct) simp_all

lemma platform_inv_empty: "platform_inv (empty_platform_db, [])"
  by (simp add: platform_inv_def empty_platform_db_def platform_balance_def replay_def)

text \<open>A ledger operation of the platform that finds its user: the balance moves by the
  delta and one row carries it.\<close>

lemma platform_inv_row:
  assumes inv: "platform_inv (d, evs)"
    and u: "find (\<lambda>u. pu_id u = uid) (p_users d) = Some w"
    and t: "transaction_user_id t = uid" "transaction_credits t = delta"
  shows "platform_inv
           (d\<lparr>p_users := update_first (\<lambda>u. pu_id u = uid)
                             (\<lambda>u. u\<lparr>pu_credits := pu_credits u + delta\<rparr>) (p_users d),
              p_transactions := p_transactions d @ [t]\<rparr>,
            evs @ [Row uid delta])"
proof -
  from inv have dist: "distinct (map pu_id (p_users d))"
    and rows: "map (\<lambda>t. (transaction_user_id t, transaction_credits t)) (p_transactions d)
                 = recorded evs"
    and bal: "\<And>v. platform_balance d v = replay evs v"
    by (simp_all add: platform_inv_def)
  let ?f = "\<lambda>u. u\<lparr>pu_credits := pu_credits u + delta\<rparr>"
  let ?d = "d\<lparr>p_users := update_first (\<lambda>u. pu_id u = uid) ?f (p_users d),
              p_transactions := p_transactions d @ [t]\<rparr>"
  have 1: "distinct (map pu_id (p_users ?d))"
    using dist by (simp add: map_pu_id_update_first)
  have 2: "map (\<lambda>t. (transaction_user_id t, transaction_credits t)) (p_transactions ?d)
             = recorded (evs @ [Row uid delta])"
    using rows t by (simp add: recorded_append)
  have 3: "platform_balance ?d v = replay (evs @ [Row uid delta]) v" for v
  proof -
    have "platform_balance ?d v
            = (if v = uid then map_option (\<lambda>x. x + delta) (platform_balance d uid)
               else platform_balance d v)"
      by (simp add: platform_balance_def find_platform_user_update option.map_comp comp_def)
    then show ?thesis by (simp add: replay_append bal)
  qed
  from 1 2 3 show ?thesis by (simp add: platform_inv_def)
qed

lemma platform_inv_apply_credits:
  assumes "platform_inv (d, evs)"
  shows "platform_inv (run_platform_call (d, evs) (ApplyCredits tok uid delta ty descr))"
proof (cases "find (\<lambda>u. pu_id u = uid) (p_users d)")
  case None
  with assms show ?thesis by (simp add: apply_credits_def)
next
  case (Some w)
  from platform_inv_row[OF assms Some, where delta = delta and
      t = "\<lparr>transaction_id = tok, transaction_user_id = uid, transaction_type = ty,
              amount = None, transaction_credits = delta, description = descr,
              stripe_payment_id = None\<rparr>"] Some
  show ?thesis by (simp add: apply_credits_def)
qed

lemma platform_inv_use_credits:
  assumes "platform_inv (d, evs)"
  shows "platform_inv (run_platform_call (d, evs) (ManagerUseCredits tok uid pid minutes))"
proof (cases "find (\<lambda>u. pu_id u = uid) (p_users d)")
  case None
  with assms show ?thesis by (simp add: CreditManager_use_credits_def)
next
  case (Some w)
  show ?thesis
  proof (cases "SUBSCRIPTION_TIERS (pu_subscription_tier w)")
    case None
    with Some assms show ?thesis by (simp add: CreditManager_use_credits_def)
  next
    case (Some tier)
    note tier = this
    show ?thesis
    proof (cases "pu_credits w < of_int minutes * price_per_minute tier")
      case True
      with tier \<open>find (\<lambda>u. pu_id u = uid) (p_users d) = Some w\<close> assms
      show ?thesis by (simp add: CreditManager_use_credits_def Let_def)
    next
      case False
      from platform_inv_row[OF assms \<open>find (\<lambda>u. pu_id u = uid) (p_users d) = Some w\<close>,
          where delta = "- (of_int minutes * price_per_minute tier)" and
          t = "\<lparr>transaction_id = tok, transaction_user_id = uid,
                  transaction_type = ''usage'', amount = None,
                  transaction_credits = - (of_int minutes * price_per_minute tier),
                  description = ''Project '' @ pid @ '': '' @ str_int minutes @ '' minutes'',
                  stripe_payment_id = None\<rparr>"]
        False tier \<open>find (\<lambda>u. pu_id u = uid) (p_users d) = Some w\<close>
      show ?thesis by (simp add: CreditManager_use_credits_def Let_def)
    qed
  qed
qed

lemma fresh_id:
  assumes "\<not> list_ex (\<lambda>v. pu_id v = a \<or> Q v) xs"
  shows "find (\<lambda>u. pu_id u = a) xs = None" and "a \<notin> set (map pu_id xs)"
  using assms by (auto simp: list_ex_iff find_None_iff)

lemma platform_register_success:
  assumes "find (\<lambda>u. pu_email u = reg_email reg) (p_users d) = None"
    and "\<not> list_ex (\<lambda>v. pu_id v = r 0 \<or> (pu_referral_code v = r (Suc 0)
                              \<or> pu_api_key v = r (Suc (Suc 0)))) (p_users d)"
  shows "platform_register d r reg =
     (Inr \<lparr>rr_user_id = r 0,
           rr_credits = (case referrer_of d reg of None \<Rightarrow> 0 | Some _ \<Rightarrow> 10)\<rparr>,
      d\<lparr>p_users :=
          (case referrer_of d reg of
             None \<Rightarrow> p_users d
           | Some ref \<Rightarrow> update_first (\<lambda>u. pu_referral_code u = pu_referral_code ref)
                          (\<lambda>u. u\<lparr>pu_credits := pu_credits u + 25\<rparr>) (p_users d))
          @ [\<lparr>pu_id = r 0, pu_email = reg_email reg,
               pu_credits = (case referrer_of d reg of None \<Rightarrow> 0 | Some _ \<Rightarrow> 10),
               pu_subscription_tier = ''free'', pu_referral_code = r (Suc 0),
               pu_referred_by = reg_referral_code reg, pu_api_key = r (Suc (Suc 0))\<rparr>]\<rparr>,
      \<lambda>i. r (Suc (Suc (Suc i))))"
  using assms
  by (simp add: platform_register_def referrer_of_def token_hex_def Let_def)

lemma platform_register_failure:
  assumes "find (\<lambda>u. pu_email u = reg_email reg) (p_users d) \<noteq> None
           \<or> list_ex (\<lambda>v. pu_id v = r 0 \<or> (pu_referral_code v = r (Suc 0)
                              \<or> pu_api_key v = r (Suc (Suc 0)))) (p_users d)"
  shows "\<exists>e. platform_register d r reg = (Inl e, d, r)"
proof (cases "find (\<lambda>u. pu_email u = reg_email reg) (p_users d)")
  case (Some x)
  then show ?thesis by (simp add: platform_register_def)
next
  case None
  with assms show ?thesis
    by (simp add: platform_register_def token_hex_def Let_def)
qed

lemma platform_inv_register:
  assumes inv: "platform_inv (d, evs)"
  shows "platform_inv (run_platform_call (d, evs) (Register r reg))"
proof (cases "find (\<lambda>u. pu_email u = reg_email reg) (p_users d) \<noteq> None
           \<or> list_ex (\<lambda>v. pu_id v = r 0 \<or> (pu_referral_code v = r (Suc 0)
                              \<or> pu_api_key v = r (Suc (Suc 0)))) (p_users d)")
  case True
  from platform_register_failure[OF True]
  obtain e where "platform_register d r reg = (Inl e, d, r)" by (elim exE)
  with inv show ?thesis by simp
next
  case False
  then have em: "find (\<lambda>u. pu_email u = reg_email reg) (p_users d) = None"
    and fr: "\<not> list_ex (\<lambda>v. pu_id v = r 0 \<or> (pu_referral_code v = r (Suc 0)
                              \<or> pu_api_key v = r (Suc (Suc 0)))) (p_users d)"
    by simp_all
  note reg = platform_register_success[OF em fr]
  from fresh_id[OF fr] have f0: "find (\<lambda>u. pu_id u = r 0) (p_users d) = None"
    and n0: "r 0 \<notin> set (map pu_id (p_users d))" by simp_all
  from inv have dist: "distinct (map pu_id (p_users d))"
    and rows: "map (\<lambda>t. (transaction_user_id t, transaction_credits t)) (p_transactions d)
                 = recorded evs"
    and bal: "\<And>v. platform_balance d v = replay evs v"
    by (simp_all add: platform_inv_def)
  show ?thesis
  proof (cases "referrer_of d reg")
    case None
    let ?u = "\<lparr>pu_id = r 0, pu_email = reg_email reg, pu_credits = 0,
               pu_subscription_tier = ''free'', pu_referral_code = r (Suc 0),
               pu_referred_by = reg_referral_code reg, pu_api_key = r (Suc (Suc 0))\<rparr>"
    have run: "run_platform_call (d, evs) (Register r reg)
                 = (d\<lparr>p_users := p_users d @ [?u]\<rparr>, evs @ [Start (r 0) 0])"
      by (simp add: reg None)
    have 1: "distinct (map pu_id (p_users (d\<lparr>p_users := p_users d @ [?u]\<rparr>)))"
      using dist n0 by simp
    have 3: "platform_balance (d\<lparr>p_users := p_users d @ [?u]\<rparr>) v
               = replay (evs @ [Start (r 0) 0]) v" for v
    proof (cases "v = r 0")
      case True
      with f0 show ?thesis
        by (simp add: platform_balance_def find_append_single replay_append)
    next
      case False
      then have "platform_balance (d\<lparr>p_users := p_users d @ [?u]\<rparr>) v = platform_balance d v"
        by (simp add: platform_balance_def find_append_single split: option.splits)
      with False show ?thesis by (simp add: replay_append bal)
    qed
    from 1 rows 3 show ?thesis
      unfolding run by (simp add: platform_inv_def recorded_append)
  next
    case (Some rf)
    then obtain c where c: "find (\<lambda>u. pu_referral_code u = c) (p_users d) = Some rf"
      by (auto simp: referrer_of_def split: option.splits if_splits)
    from find_Some_member[OF c] have mem: "rf \<in> set (p_users d)"
      and code: "pu_referral_code rf = c" by simp_all
    from mem have "pu_id rf \<in> set (map pu_id (p_users d))"
      by (simp only: set_map) (rule imageI)
    with n0 have ne: "pu_id rf \<noteq> r 0" by (cases "pu_id rf = r 0") simp_all
    let ?f = "\<lambda>u. u\<lparr>pu_credits := pu_credits u + 25\<rparr>"
    let ?u = "\<lparr>pu_id = r 0, pu_email = reg_email reg, pu_credits = 10,
               pu_subscription_tier = ''free'', pu_referral_code = r (Suc 0),
               pu_referred_by = reg_referral_code reg, pu_api_key = r (Suc (Suc 0))\<rparr>"
    let ?us = "update_first (\<lambda>u. pu_id u = pu_id rf) ?f (p_users d)"
    have upd: "update_first (\<lambda>u. pu_referral_code u = pu_referral_code rf) ?f (p_users d) = ?us"
      unfolding code by (rule update_first_by_code_is_by_id[OF dist c])
    have run: "run_platform_call (d, evs) (Register r reg)
                 = (d\<lparr>p_users := ?us @ [?u]\<rparr>, evs @ [Bonus (pu_id rf) 25, Start (r 0) 10])"
      by (simp add: reg Some upd)
    have 1: "distinct (map pu_id (p_users (d\<lparr>p_users := ?us @ [?u]\<rparr>)))"
      using dist n0 by (simp add: map_pu_id_update_first)
    have own: "platform_balance d (pu_id rf) = Some (pu_credits rf)"
      by (simp add: platform_balance_def find_distinct_member[OF dist mem])
    have fu: "find (\<lambda>u. pu_id u = v) ?us
                = (if v = pu_id rf then map_option ?f (find (\<lambda>u. pu_id u = pu_id rf) (p_users d))
                   else find (\<lambda>u. pu_id u = v) (p_users d))" for v
      by (rule find_platform_user_update) simp
    have 3: "platform_balance (d\<lparr>p_users := ?us @ [?u]\<rparr>) v
               = replay (evs @ [Bonus (pu_id rf) 25, Start (r 0) 10]) v" for v
    proof -
      consider "v = r 0" | "v = pu_id rf" | "v \<noteq> r 0" "v \<noteq> pu_id rf" by blast
      then show ?thesis
      proof cases
        case 1
        with ne f0 show ?thesis
          by (simp add: platform_balance_def find_append_single fu replay_append)
      next
        case 2
        with ne own show ?thesis
          by (simp add: platform_balance_def find_append_single fu replay_append
              find_distinct_member[OF dist mem] bal[symmetric])
      next
        case 3
        then have "platform_balance (d\<lparr>p_users := ?us @ [?u]\<rparr>) v = platform_balance d v"
          by (simp add: platform_balance_def find_append_single fu split: option.splits)
        with 3 show ?thesis by (simp add: replay_append bal)
      qed
    qed
    from 1 rows 3 show ?thesis
      unfolding run by (simp add: platform_inv_def recorded_append)
  qed
qed

lemma platform_inv_run_call:
  "platform_inv s \<Longrightarrow> platform_inv (run_platform_call s c)"
proof -
  assume inv: "platform_inv s"
  obtain d evs where s: "s = (d, evs)" by (cases s)
  show ?thesis
  proof (cases c)
    case (Register r reg)
    with inv s show ?thesis by (simp only: platform_inv_register)
  next
    case (ApplyCredits tok uid delta ty descr)
    with inv s show ?thesis by (simp only: platform_inv_apply_credits)
  next
    case (ManagerUseCredits tok uid pid minutes)
    with inv s show ?thesis by (simp only: platform_inv_use_credits)
  qed
qed

lemma platform_inv_foldl: "platform_inv s \<Longrightarrow> platform_inv (foldl run_platform_call s cs)"
  by (induction cs arbitrary: s) (simp_all add: platform_inv_run_call)

lemma platform_inv_run_platform_calls: "platform_inv (run_platform_calls cs)"
  unfolding run_platform_calls_def by (rule platform_inv_foldl[OF platform_inv_empty])

text \<open>
  C3, as the specification states it, fails at the first operation: registration sets
  the balance to the 10 free credits and writes no transaction row, so the deltas of the
  new user sum to 0 while the balance is 10.
\<close>

theorem ledger_sum_not_balance_counterexample:
  "balance (run_calls empty_db [CreateUser ''u1'' ''a@example.com'']) ''u1'' = Some 10 \<and>
   ledger_sum (transactions (run_calls empty_db [CreateUser ''u1'' ''a@example.com''])) ''u1''
     = 0"
  by (simp add: run_calls_def create_user_def empty_db_def balance_def ledger_sum_def Let_def)

text \<open>
  C3, amended.  After any sequence of registrations, credit purchases and usage debits
  of the main application, from the empty database, the balance of every user is the 10
  free signup credits, for which no transaction row is written, with the credit deltas
  of the user's transaction rows added to it one after the other in the order of the
  rows; an id without a user row has no transaction rows.  After any sequence of
  registrations, \<open>apply_credits\<close> and \<open>use_credits\<close> calls of the platform, from the empty
  database, the transaction rows are, in order, the deltas that \<open>apply_credits\<close> and
  \<open>use_credits\<close> applied, and the balance of every user is the balance the user was
  registered with (10 when referred by an existing user, 0 otherwise) with the referral
  bonuses of 25 the user earned and the deltas of the user's rows added to it in the
  order in which they happened; neither the starting balance nor a referral bonus has a
  transaction row.  The additions are taken in the order in which the code made them, so
  neither statement rests on addition being associative.
\<close>

theorem balance_is_signup_grant_plus_ledger:
  "(case balance (run_calls empty_db cs) uid of
      None \<Rightarrow> ledger_deltas (transactions (run_calls empty_db cs)) uid = []
    | Some b \<Rightarrow>
        b = ledger_replay 10 (ledger_deltas (transactions (run_calls empty_db cs)) uid)) \<and>
   map (\<lambda>t. (transaction_user_id t, transaction_credits t))
       (p_transactions (fst (run_platform_calls pcs)))
     = recorded (snd (run_platform_calls pcs)) \<and>
   platform_balance (fst (run_platform_calls pcs)) puid
     = replay (snd (run_platform_calls pcs)) puid"
proof (intro conjI)
  show "case balance (run_calls empty_db cs) uid of
      None \<Rightarrow> ledger_deltas (transactions (run_calls empty_db cs)) uid = []
    | Some b \<Rightarrow>
        b = ledger_replay 10 (ledger_deltas (transactions (run_calls empty_db cs)) uid)"
    by (rule ledger_inv_run_calls)
next
  from platform_inv_run_platform_calls[of pcs]
  show "map (\<lambda>t. (transaction_user_id t, transaction_credits t))
       (p_transactions (fst (run_platform_calls pcs)))
     = recorded (snd (run_platform_calls pcs))"
    by (simp add: platform_inv_def)
next
  from platform_inv_run_platform_calls[of pcs]
  show "platform_balance (fst (run_platform_calls pcs)) puid
     = replay (snd (run_platform_calls pcs)) puid"
    by (simp add: platform_inv_def)
qed

lemma example_platform_run:
  "snd (run_platform_calls
          [Register example_rng \<lparr>reg_email = ''a@example.com'', reg_referral_code = None\<rparr>,
           Register (\<lambda>i. example_rng (i + 3))
             \<lparr>reg_email = ''b@example.com'', reg_referral_code = Some ''aa''\<rparr>,
           ApplyCredits ''t1'' ''a'' 5 ''purchase'' ''Credit purchase''])
     = [Start ''a'' 0, Bonus ''a'' 25, Start ''aaaa'' 10, Row ''a'' 5]"
  by (simp add: run_platform_calls_def empty_platform_db_def platform_register_def
      apply_credits_def referrer_of_def token_hex_def example_rng_def Let_def
      eval_nat_numeral)

theorem balance_is_signup_grant_plus_ledger_witness:
  "balance (run_calls empty_db [CreateUser ''u1'' ''a@example.com'',
       AddCredits ''t1'' ''u1'' 50 ''Credit purchase'' None,
       UseCredits ''t2'' ''u1'' 40 ''Project: Film'']) ''u1'' = Some 20 \<and>
   ledger_deltas (transactions (run_calls empty_db [CreateUser ''u1'' ''a@example.com'',
       AddCredits ''t1'' ''u1'' 50 ''Credit purchase'' None,
       UseCredits ''t2'' ''u1'' 40 ''Project: Film''])) ''u1'' = [50, - 40] \<and>
   platform_balance
     (fst (run_platform_calls
          [Register example_rng \<lparr>reg_email = ''a@example.com'', reg_referral_code = None\<rparr>,
           Register (\<lambda>i. example_rng (i + 3))
             \<lparr>reg_email = ''b@example.com'', reg_referral_code = Some ''aa''\<rparr>,
           ApplyCredits ''t1'' ''a'' 5 ''purchase'' ''Credit purchase''])) ''a'' = Some 30 \<and>
   map (\<lambda>t. (transaction_user_id t, transaction_credits t))
     (p_transactions (fst (run_platform_calls
          [Register example_rng \<lparr>reg_email = ''a@example.com'', reg_referral_code = None\<rparr>,
           Register (\<lambda>i. example_rng (i + 3))
             \<lparr>reg_email = ''b@example.com'', reg_referral_code = Some ''aa''\<rparr>,
           ApplyCredits ''t1'' ''a'' 5 ''purchase'' ''Credit purchase''])))
     = [(''a'', 5)]"
proof -
  let ?cs = "[CreateUser ''u1'' ''a@example.com'',
       AddCredits ''t1'' ''u1'' 50 ''Credit purchase'' None,
       UseCredits ''t2'' ''u1'' 40 ''Project: Film'']"
  let ?pcs = "[Register example_rng \<lparr>reg_email = ''a@example.com'', reg_referral_code = None\<rparr>,
           Register (\<lambda>i. example_rng (i + 3))
             \<lparr>reg_email = ''b@example.com'', reg_referral_code = Some ''aa''\<rparr>,
           ApplyCredits ''t1'' ''a'' 5 ''purchase'' ''Credit purchase'']"
  note t = balance_is_signup_grant_plus_ledger[of ?cs "''u1''" ?pcs "''a''"]
  have d: "ledger_deltas (transactions (run_calls empty_db ?cs)) ''u1'' = [50, - 40]"
    by (simp add: run_calls_def create_user_def add_credits_def use_credits_def empty_db_def
        ledger_deltas_def Let_def)
  have e: "balance (run_calls empty_db ?cs) ''u1'' \<noteq> None"
    by (simp add: run_calls_def create_user_def add_credits_def use_credits_def empty_db_def
        balance_def Let_def)
  from t e have "balance (run_calls empty_db ?cs) ''u1''
      = Some (ledger_replay 10 (ledger_deltas (transactions (run_calls empty_db ?cs)) ''u1''))"
    by (cases "balance (run_calls empty_db ?cs) ''u1''") simp_all
  then have 1: "balance (run_calls empty_db ?cs) ''u1'' = Some 20"
    by (simp add: d ledger_replay_def)
  from t have 2: "platform_balance (fst (run_platform_calls ?pcs)) ''a'' = Some 30"
    by (simp add: example_platform_run replay_def)
  from t have 3: "map (\<lambda>t. (transaction_user_id t, transaction_credits t))
        (p_transactions (fst (run_platform_calls ?pcs))) = [(''a'', 5)]"
    by (simp add: example_platform_run)
  show ?thesis by (rule conjI[OF 1 conjI[OF d conjI[OF 2 3]]])
qed

section \<open>Project creation\<close>

text \<open>
  C2, as the specification states it, fails on the platform's endpoint: it checks the
  tier's duration limit before the credits, so a 60-minute request of a free-tier user
  without credits, whose cost of 250 exceeds the balance, is rejected with 403, not 402.
  Nothing is written.
\<close>

theorem tier_limit_before_credit_check_counterexample:
  "map_sum id total (PricingEngine_calculate_project_cost 60 True True ''standard'' False)
     = Inr 250 \<and>
   platform_create_project default_providers example_json
     \<lparr>p_users = [\<lparr>pu_id = ''u1'', pu_email = ''a@example.com'', pu_credits = 0,
        pu_subscription_tier = ''free'', pu_referral_code = ''c1'', pu_referred_by = None,
        pu_api_key = ''k1''\<rparr>], p_projects = [], p_transactions = [], gpu_nodes = []\<rparr>
     example_rng ''u1''
     \<lparr>req_title = ''Film'', req_duration_minutes = 60, req_format = ''film'',
       req_include_script = True, req_include_storyboard = True, req_quality = ''standard'',
       req_source_content = None\<rparr>
   = (Inl (HTTPException 403),
      \<lparr>p_users = [\<lparr>pu_id = ''u1'', pu_email = ''a@example.com'', pu_credits = 0,
        pu_subscription_tier = ''free'', pu_referral_code = ''c1'', pu_referred_by = None,
        pu_api_key = ''k1''\<rparr>], p_projects = [], p_transactions = [], gpu_nodes = []\<rparr>,
      example_rng)"
proof -
  from scenario_B_engine
  have "map_sum id total (PricingEngine_calculate_project_cost 60 True True ''standard'' False)
     = Inr 250"
    by (auto split: sum.splits)
  then show ?thesis
    by (simp add: platform_create_project_def SUBSCRIPTION_TIERS_def)
qed

text \<open>
  C2, amended.  A project-creation request whose computed total cost exceeds the user's
  balance is rejected, no credits are debited and no project row is created: the tables
  are those from before the request.  The main application answers 402.  The platform's
  endpoint answers 402 as well, unless the requested duration exceeds the limit of the
  user's tier: that is checked first and answered with 403.
\<close>

theorem insufficient_credits_rejected:
  "(credits current_user
      < pc_total (calculate_project_cost (req_duration_minutes pd) (req_include_script pd)
                    (req_include_storyboard pd) (req_quality pd)) \<longrightarrow>
      create_project json d ptok ttok current_user pd = (Inl (HTTPException 402), d)) \<and>
   (find (\<lambda>u. pu_id u = uid) (p_users pdb) = Some u \<and>
    SUBSCRIPTION_TIERS (pu_subscription_tier u) = Some tier \<and>
    PricingEngine_calculate_project_cost (req_duration_minutes pd) (req_include_script pd)
      (req_include_storyboard pd) (req_quality pd) False = Inr cs \<and>
    pu_credits u < total cs \<longrightarrow>
      platform_create_project ps json pdb r uid pd =
        (Inl (HTTPException
               (if max_duration_minutes tier > 0
                   \<and> req_duration_minutes pd > max_duration_minutes tier
                then 403 else 402)), pdb, r))"
  by (simp add: create_project_def platform_create_project_def Let_def)

theorem insufficient_credits_rejected_witness:
  "create_project example_json
     \<lparr>users = [\<lparr>user_id = ''u1'', email = ''a@example.com'', credits = 10,
         subscription_tier = ''free'', is_admin = False\<rparr>], projects = [], transactions = []\<rparr>
     ''p1'' ''t1''
     \<lparr>user_id = ''u1'', email = ''a@example.com'', credits = 10,
       subscription_tier = ''free'', is_admin = False\<rparr>
     \<lparr>req_title = ''Film'', req_duration_minutes = 60, req_format = ''film'',
       req_include_script = True, req_include_storyboard = True, req_quality = ''standard'',
       req_source_content = None\<rparr>
   = (Inl (HTTPException 402),
      \<lparr>users = [\<lparr>user_id = ''u1'', email = ''a@example.com'', credits = 10,
         subscription_tier = ''free'', is_admin = False\<rparr>], projects = [], transactions = []\<rparr>) \<and>
   platform_create_project default_providers example_json
     \<lparr>p_users = [\<lparr>pu_id = ''u1'', pu_email = ''a@example.com'', pu_credits = 10,
        pu_subscription_tier = ''starter'', pu_referral_code = ''c1'', pu_referred_by = None,
        pu_api_key = ''k1''\<rparr>], p_projects = [], p_transactions = [], gpu_nodes = []\<rparr>
     example_rng ''u1''
     \<lparr>req_title = ''Film'', req_duration_minutes = 60, req_format = ''film'',
       req_include_script = True, req_include_storyboard = True, req_quality = ''standard'',
       req_source_content = None\<rparr>
   = (Inl (HTTPException 402),
      \<lparr>p_users = [\<lparr>pu_id = ''u1'', pu_email = ''a@example.com'', pu_credits = 10,
        pu_subscription_tier = ''starter'', pu_referral_code = ''c1'', pu_referred_by = None,
        pu_api_key = ''k1''\<rparr>], p_projects = [], p_transactions = [], gpu_nodes = []\<rparr>,
      example_rng)"
proof -
  let ?v = "\<lparr>user_id = ''u1'', email = ''a@example.com'', credits = 10,
       subscription_tier = ''free'', is_admin = False\<rparr>"
  let ?u = "\<lparr>pu_id = ''u1'', pu_email = ''a@example.com'', pu_credits = 10,
        pu_subscription_tier = ''starter'', pu_referral_code = ''c1'', pu_referred_by = None,
        pu_api_key = ''k1''\<rparr>"
  let ?pd = "\<lparr>req_title = ''Film'', req_duration_minutes = 60, req_format = ''film'',
       req_include_script = True, req_include_storyboard = True, req_quality = ''standard'',
       req_source_content = None\<rparr>"
  let ?pdb = "\<lparr>p_users = [?u], p_projects = [], p_transactions = [], gpu_nodes = []\<rparr>"
  let ?tier = "\<lparr>price_per_minute = 3, max_duration_minutes = 60\<rparr>"
  from scenario_B_engine
  obtain c where c: "PricingEngine_calculate_project_cost 60 True True ''standard'' False = Inr c"
    and t: "total c = 250"
    by (auto split: sum.splits)
  have 1: "credits ?v < pc_total (calculate_project_cost (req_duration_minutes ?pd)
             (req_include_script ?pd) (req_include_storyboard ?pd) (req_quality ?pd))"
    by (simp add: scenario_B_pricing)
  have 2: "find (\<lambda>u. pu_id u = ''u1'') (p_users ?pdb) = Some ?u" by simp
  have 3: "SUBSCRIPTION_TIERS (pu_subscription_tier ?u) = Some ?tier"
    by (simp add: SUBSCRIPTION_TIERS_def)
  have 4: "PricingEngine_calculate_project_cost (req_duration_minutes ?pd)
      (req_include_script ?pd) (req_include_storyboard ?pd) (req_quality ?pd) False = Inr c"
    using c by simp
  have 5: "pu_credits ?u < total c" using t by simp
  from insufficient_credits_rejected[where current_user = ?v and pd = ?pd and uid = "''u1''"
      and pdb = ?pdb and u = ?u and tier = ?tier and cs = c] 1 2 3 4 5
  show ?thesis by simp
qed

section \<open>The background task\<close>

lemma get_project_update_first:
  "(\<And>p. project_id (f p) = project_id p) \<Longrightarrow>
     find (\<lambda>p. project_id p = pid) (update_first (\<lambda>p. project_id p = pid) f ps)
       = map_option f (find (\<lambda>p. project_id p = pid) ps)"
  by (rule find_update_first) simp

lemma get_project_update_project_status:
  "get_project (update_project_status d pid st pr) pid
     = map_option (\<lambda>p. p\<lparr>status := st, progress := pr\<rparr>) (get_project d pid)"
  by (simp add: get_project_def update_project_status_def get_project_update_first)

lemma get_project_fail_project:
  "map_option status (get_project (fail_project d pid err) pid)
     = map_option (\<lambda>_. ''failed'') (get_project d pid)"
  by (simp add: get_project_def fail_project_def get_project_update_first option.map_comp
      comp_def)

lemma exists_update_project_status:
  "get_project (update_project_status d pid st pr) pid = None \<longleftrightarrow> get_project d pid = None"
  by (simp add: get_project_update_project_status)

text \<open>Without both options the \<open>try\<close> block ends in an exception, and the project row,
  if there is one, is still there.\<close>

lemma generate_film_try_raises:
  assumes "\<not> (req_include_script pd \<and> req_include_storyboard pd)"
  shows "\<exists>e d'. generate_film_try ext d pid pd = (Some e, d')
           \<and> (get_project d' pid = None \<longleftrightarrow> get_project d pid = None)"
proof (cases "req_include_script pd")
  case True
  with assms have nb: "\<not> req_include_storyboard pd" by simp
  show ?thesis
  proof (cases "generate_script ext (req_source_content pd)")
    case (Inl e)
    with True show ?thesis
      by (simp add: generate_film_try_def Let_def exists_update_project_status)
  next
    case (Inr s)
    with True nb show ?thesis
      by (simp add: generate_film_try_def Let_def local_var_def exists_update_project_status)
  qed
next
  case False
  then show ?thesis
    by (simp add: generate_film_try_def Let_def local_var_def exists_update_project_status)
qed

text \<open>
  C10.  When a request does not ask for both the script and the storyboard, the
  background task of the main application ends by marking the project \<open>failed\<close>: the
  video stage, or the storyboard stage before it, reads a local variable that was never
  assigned.  So the task leaves a project \<open>complete\<close> only when both were requested.
\<close>

theorem generate_film_needs_both_options:
  "(\<not> (req_include_script pd \<and> req_include_storyboard pd) \<and> get_project d pid = Some p \<longrightarrow>
      map_option status (get_project (generate_film_async ext d pid pd) pid) = Some ''failed'') \<and>
   (map_option status (get_project (generate_film_async ext d pid pd) pid) = Some ''complete''
      \<longrightarrow> req_include_script pd \<and> req_include_storyboard pd)"
proof -
  have *: "map_option status (get_project (generate_film_async ext d pid pd) pid)
             = map_option (\<lambda>_. ''failed'') (get_project d pid)"
    if "\<not> (req_include_script pd \<and> req_include_storyboard pd)"
  proof -
    from generate_film_try_raises[OF that, of ext d pid]
    obtain e d' where r: "generate_film_try ext d pid pd = (Some e, d')"
      and ex: "get_project d' pid = None \<longleftrightarrow> get_project d pid = None"
      by (elim exE conjE)
    have "map_option status (get_project (generate_film_async ext d pid pd) pid)
            = map_option (\<lambda>_. ''failed'') (get_project d' pid)"
      by (simp add: generate_film_async_def r get_project_fail_project)
    also have "\<dots> = map_option (\<lambda>_. ''failed'') (get_project d pid)"
      using ex by (cases "get_project d' pid"; cases "get_project d pid") simp_all
    finally show ?thesis .
  qed
  show ?thesis
  proof (intro conjI impI)
    assume "\<not> (req_include_script pd \<and> req_include_storyboard pd) \<and> get_project d pid = Some p"
    with * show "map_option status (get_project (generate_film_async ext d pid pd) pid)
                   = Some ''failed''"
      by simp
  next
    assume c: "map_option status (get_project (generate_film_async ext d pid pd) pid)
                 = Some ''complete''"
    show "req_include_script pd" "req_include_storyboard pd"
      using * c by (cases "get_project d pid"; auto)+
  qed
qed

theorem generate_film_needs_both_options_witness:
  "map_option status
     (get_project
        (generate_film_async
           \<lparr>generate_script = (\<lambda>_. Inr ''script''),
             generate_storyboard = (\<lambda>_. Inr [''scene'']),
             generate_film = (\<lambda>_ _. Inr (FilmSuccess ''http://pod/film.mp4'')),
             upload_to_spaces = (\<lambda>_. Inr ''http://spaces/film.mp4'')\<rparr>
           \<lparr>users = [],
             projects = [\<lparr>project_id = ''p1'', project_user_id = ''u1'', title = ''Film'',
               duration_minutes = 1, format = ''film'', status = ''queued'', progress = 0,
               cost = 14, film_url = None, metadata = []\<rparr>],
             transactions = []\<rparr>
           ''p1''
           \<lparr>req_title = ''Film'', req_duration_minutes = 1, req_format = ''film'',
             req_include_script = True, req_include_storyboard = False,
             req_quality = ''standard'', req_source_content = None\<rparr>)
        ''p1'') = Some ''failed'' \<and>
   map_option status
     (get_project
        (generate_film_async
           \<lparr>generate_script = (\<lambda>_. Inr ''script''),
             generate_storyboard = (\<lambda>_. Inr [''scene'']),
             generate_film = (\<lambda>_ _. Inr (FilmSuccess ''http://pod/film.mp4'')),
             upload_to_spaces = (\<lambda>_. Inr ''http://spaces/film.mp4'')\<rparr>
           \<lparr>users = [],
             projects = [\<lparr>project_id = ''p1'', project_user_id = ''u1'', title = ''Film'',
               duration_minutes = 1, format = ''film'', status = ''queued'', progress = 0,
               cost = 14, film_url = None, metadata = []\<rparr>],
             transactions = []\<rparr>
           ''p1''
           \<lparr>req_title = ''Film'', req_duration_minutes = 1, req_format = ''film'',
             req_include_script = True, req_include_storyboard = True,
             req_quality = ''standard'', req_source_content = None\<rparr>)
        ''p1'') = Some ''complete''"
proof -
  let ?ext = "\<lparr>generate_script = (\<lambda>_. Inr ''script''),
             generate_storyboard = (\<lambda>_. Inr [''scene'']),
             generate_film = (\<lambda>_ _. Inr (FilmSuccess ''http://pod/film.mp4'')),
             upload_to_spaces = (\<lambda>_. Inr ''http://spaces/film.mp4'')\<rparr>"
  let ?p = "\<lparr>project_id = ''p1'', project_user_id = ''u1'', title = ''Film'',
               duration_minutes = 1, format = ''film'', status = ''queued'', progress = 0,
               cost = 14, film_url = None, metadata = []\<rparr>"
  let ?d = "\<lparr>users = [], projects = [?p], transactions = []\<rparr>"
  let ?pd1 = "\<lparr>req_title = ''Film'', req_duration_minutes = 1, req_format = ''film'',
             req_include_script = True, req_include_storyboard = False,
             req_quality = ''standard'', req_source_content = None\<rparr>"
  let ?pd2 = "\<lparr>req_title = ''Film'', req_duration_minutes = 1, req_format = ''film'',
             req_include_script = True, req_include_storyboard = True,
             req_quality = ''standard'', req_source_content = None\<rparr>"
  have g: "get_project ?d ''p1'' = Some ?p" by (simp add: get_project_def)
  have n: "\<not> (req_include_script ?pd1 \<and> req_include_storyboard ?pd1)" by simp
  from generate_film_needs_both_options[of ?pd1 ?d "''p1''" ?p ?ext] g n
  have 1: "map_option status (get_project (generate_film_async ?ext ?d ''p1'' ?pd1) ''p1'')
             = Some ''failed''"
    by blast
  have 2: "map_option status (get_project (generate_film_async ?ext ?d ''p1'' ?pd2) ''p1'')
             = Some ''complete''"
    by (simp add: generate_film_async_def generate_film_try_def update_project_status_def
        complete_project_def get_project_def local_var_def Let_def)
  from generate_film_needs_both_options[of ?pd2 ?d "''p1''" ?p ?ext] 2
  have "req_include_script ?pd2 \<and> req_include_storyboard ?pd2" by blast
  with 1 2 show ?thesis by blast
qed

section \<open>Registration with a referral code\<close>

lemma find_referrer_update_first:
  "find (\<lambda>u. pu_referral_code u = code)
     (update_first (\<lambda>u. pu_referral_code u = code)
        (\<lambda>u. u\<lparr>pu_credits := pu_credits u + 25\<rparr>) xs)
   = map_option (\<lambda>u. u\<lparr>pu_credits := pu_credits u + 25\<rparr>)
       (find (\<lambda>u. pu_referral_code u = code) xs)"
  by (rule find_update_first) simp

lemma find_Some_holds: "find P xs = Some x \<Longrightarrow> P x"
  by (induction xs) (auto split: if_splits)

text \<open>
  C9.  A registration with a new email address and fresh tokens that supplies the
  referral code of an existing user U1 raises the balance of U1's row by the referral
  bonus of 25 and gives the new user the starting balance 10; the same registration
  without a referral code gives the starting balance 0, the default of the column, which
  is a different amount.
\<close>

theorem referral_registration_bonuses:
  assumes "find (\<lambda>u. pu_email u = reg_email reg) (p_users d) = None"
    and "reg_referral_code reg = Some code" and "code \<noteq> []"
    and "find (\<lambda>u. pu_referral_code u = code) (p_users d) = Some u1"
    and "\<not> list_ex (\<lambda>v. pu_id v = r 0 \<or> pu_referral_code v = r 1 \<or> pu_api_key v = r 2)
             (p_users d)"
  shows "fst (platform_register d r reg) = Inr \<lparr>rr_user_id = r 0, rr_credits = 10\<rparr>
    \<and> find (\<lambda>u. pu_referral_code u = code) (p_users (fst (snd (platform_register d r reg))))
        = Some (u1\<lparr>pu_credits := pu_credits u1 + 25\<rparr>)
    \<and> length (p_users (fst (snd (platform_register d r reg)))) = Suc (length (p_users d))
    \<and> pu_id (last (p_users (fst (snd (platform_register d r reg))))) = r 0
    \<and> pu_credits (last (p_users (fst (snd (platform_register d r reg))))) = 10
    \<and> fst (platform_register d r (reg\<lparr>reg_referral_code := None\<rparr>))
        = Inr \<lparr>rr_user_id = r 0, rr_credits = 0\<rparr>
    \<and> pu_credits (last (p_users (fst (snd (platform_register d r
          (reg\<lparr>reg_referral_code := None\<rparr>)))))) = 0
    \<and> pu_credits (last (p_users (fst (snd (platform_register d r reg)))))
        \<noteq> pu_credits (last (p_users (fst (snd (platform_register d r
                     (reg\<lparr>reg_referral_code := None\<rparr>))))))"
proof -
  have code: "pu_referral_code u1 = code"
    using find_Some_holds[OF assms(4)] .
  have fresh: "\<not> list_ex (\<lambda>v. pu_id v = r 0 \<or> pu_referral_code v = r (Suc 0)
                  \<or> pu_api_key v = r (Suc (Suc 0))) (p_users d)"
    using assms(5) by (simp add: numeral_2_eq_2)
  have reg: "platform_register d r reg =
     (Inr \<lparr>rr_user_id = r 0, rr_credits = 10\<rparr>,
      d\<lparr>p_users := update_first (\<lambda>u. pu_referral_code u = code)
                       (\<lambda>u. u\<lparr>pu_credits := pu_credits u + 25\<rparr>) (p_users d)
                    @ [\<lparr>pu_id = r 0, pu_email = reg_email reg, pu_credits = 10,
                        pu_subscription_tier = ''free'', pu_referral_code = r (Suc 0),
                        pu_referred_by = Some code, pu_api_key = r (Suc (Suc 0))\<rparr>]\<rparr>,
      \<lambda>i. r (Suc (Suc (Suc i))))"
    using assms(1-4) fresh code
    by (simp add: platform_register_def token_hex_def Let_def)
  have noref: "platform_register d r (reg\<lparr>reg_referral_code := None\<rparr>) =
     (Inr \<lparr>rr_user_id = r 0, rr_credits = 0\<rparr>,
      d\<lparr>p_users := p_users d
                    @ [\<lparr>pu_id = r 0, pu_email = reg_email reg, pu_credits = 0,
                        pu_subscription_tier = ''free'', pu_referral_code = r (Suc 0),
                        pu_referred_by = None, pu_api_key = r (Suc (Suc 0))\<rparr>]\<rparr>,
      \<lambda>i. r (Suc (Suc (Suc i))))"
    using assms(1) fresh
    by (simp add: platform_register_def token_hex_def Let_def)
  show ?thesis
    using assms(4)
    by (simp add: reg noref find_append_single find_referrer_update_first
        length_update_first)
qed

theorem referral_registration_bonuses_witness:
  "fst (platform_register
          \<lparr>p_users = [\<lparr>pu_id = ''u1'', pu_email = ''a@example.com'', pu_credits = 3,
              pu_subscription_tier = ''free'', pu_referral_code = ''c1'',
              pu_referred_by = None, pu_api_key = ''k1''\<rparr>],
            p_projects = [], p_transactions = [], gpu_nodes = []\<rparr>
          example_rng
          \<lparr>reg_email = ''b@example.com'', reg_referral_code = Some ''c1''\<rparr>)
     = Inr \<lparr>rr_user_id = ''a'', rr_credits = 10\<rparr> \<and>
   find (\<lambda>u. pu_referral_code u = ''c1'')
     (p_users (fst (snd (platform_register
          \<lparr>p_users = [\<lparr>pu_id = ''u1'', pu_email = ''a@example.com'', pu_credits = 3,
              pu_subscription_tier = ''free'', pu_referral_code = ''c1'',
              pu_referred_by = None, pu_api_key = ''k1''\<rparr>],
            p_projects = [], p_transactions = [], gpu_nodes = []\<rparr>
          example_rng
          \<lparr>reg_email = ''b@example.com'', reg_referral_code = Some ''c1''\<rparr>))))
     = Some \<lparr>pu_id = ''u1'', pu_email = ''a@example.com'', pu_credits = 28,
              pu_subscription_tier = ''free'', pu_referral_code = ''c1'',
              pu_referred_by = None, pu_api_key = ''k1''\<rparr>"
proof -
  let ?u = "\<lparr>pu_id = ''u1'', pu_email = ''a@example.com'', pu_credits = 3,
              pu_subscription_tier = ''free'', pu_referral_code = ''c1'',
              pu_referred_by = None, pu_api_key = ''k1''\<rparr>"
  let ?d = "\<lparr>p_users = [?u], p_projects = [], p_transactions = [], gpu_nodes = []\<rparr>"
  let ?reg = "\<lparr>reg_email = ''b@example.com'', reg_referral_code = Some ''c1''\<rparr>"
  have 1: "find (\<lambda>u. pu_email u = reg_email ?reg) (p_users ?d) = None" by simp
  have 2: "reg_referral_code ?reg = Some ''c1''" by simp
  have 3: "''c1'' \<noteq> []" by simp
  have 4: "find (\<lambda>u. pu_referral_code u = ''c1'') (p_users ?d) = Some ?u" by simp
  have 5: "\<not> list_ex (\<lambda>v. pu_id v = example_rng 0 \<or> pu_referral_code v = example_rng 1 \<or> pu_api_key v = example_rng 2)
             (p_users ?d)" by (simp add: example_rng_def eval_nat_numeral)
  have 6: "example_rng 0 = ''a''" by (simp add: example_rng_def)
  from referral_registration_bonuses[OF 1 2 3 4 5]
  show ?thesis by (simp add: 6)
qed

section \<open>Scaling down\<close>

lemma idle_nodes_set:
  "i \<in> set (idle_nodes nodes n) \<Longrightarrow>
     i < length nodes \<and> node_status (nodes ! i) = ''available''
       \<and> current_project_id (nodes ! i) = None"
proof -
  assume "i \<in> set (idle_nodes nodes n)"
  then have "i \<in> set (sort_key (\<lambda>i. - hourly_cost (nodes ! i))
          (filter (\<lambda>i. node_status (nodes ! i) = ''available''
                        \<and> current_project_id (nodes ! i) = None)
             [0..<length nodes]))"
    unfolding idle_nodes_def limit_rows_def by (auto split: if_splits dest: in_set_takeD)
  then show ?thesis by simp
qed

lemma idle_nodes_distinct: "distinct (idle_nodes nodes n)"
  by (simp add: idle_nodes_def limit_rows_def)

lemma idle_nodes_length: "0 \<le> n \<Longrightarrow> int (length (idle_nodes nodes n)) \<le> n"
  by (simp add: idle_nodes_def limit_rows_def)

lemma sorted_desc_by_neg:
  "sorted (map (\<lambda>i. - f i) xs) \<Longrightarrow> sorted_wrt (\<lambda>a b. (f b :: rat) \<le> f a) xs"
  by (induction xs) auto

lemma idle_nodes_descending:
  "sorted_wrt (\<lambda>i j. hourly_cost (nodes ! j) \<le> hourly_cost (nodes ! i)) (idle_nodes nodes n)"
proof -
  have "sorted (map (\<lambda>i. - hourly_cost (nodes ! i)) (idle_nodes nodes n))"
  proof (cases "n < 0")
    case True
    then show ?thesis by (simp add: idle_nodes_def limit_rows_def)
  next
    case False
    then show ?thesis
      unfolding idle_nodes_def limit_rows_def if_not_P[OF False] take_map[symmetric]
      by (intro sorted_wrt_take sorted_sort_key)
  qed
  then show ?thesis by (rule sorted_desc_by_neg)
qed

lemma sorted_take_drop_le:
  assumes "sorted (map f xs)" and "a \<in> set (take n xs)" and "b \<in> set (drop n xs)"
  shows "f a \<le> f b"
proof -
  have "sorted (map f (take n xs) @ map f (drop n xs))"
    using assms(1) by (simp add: map_append[symmetric] del: map_append)
  then have "\<forall>x\<in>set (map f (take n xs)). \<forall>y\<in>set (map f (drop n xs)). x \<le> y"
    by (simp only: sorted_append) blast
  with assms(2,3) show ?thesis by simp
qed

lemma idle_nodes_most_expensive:
  assumes "j < length nodes" and "node_status (nodes ! j) = ''available''"
    and "current_project_id (nodes ! j) = None"
    and "j \<notin> set (idle_nodes nodes n)" and "i \<in> set (idle_nodes nodes n)"
  shows "hourly_cost (nodes ! j) \<le> hourly_cost (nodes ! i)"
proof -
  define xs where "xs = sort_key (\<lambda>i. - hourly_cost (nodes ! i))
          (filter (\<lambda>i. node_status (nodes ! i) = ''available''
                        \<and> current_project_id (nodes ! i) = None)
             [0..<length nodes])"
  have j: "j \<in> set xs" using assms(1-3) by (simp add: xs_def)
  have sel': "idle_nodes nodes n = limit_rows n xs" by (simp add: idle_nodes_def xs_def)
  with j assms(4) have nn: "\<not> n < 0" by (auto simp: limit_rows_def)
  then have sel: "idle_nodes nodes n = take (nat n) xs" by (simp add: sel' limit_rows_def)
  have "set xs = set (take (nat n) xs) \<union> set (drop (nat n) xs)"
    by (simp only: set_append[symmetric] append_take_drop_id)
  with j assms(4) have jd: "j \<in> set (drop (nat n) xs)"
    unfolding sel by blast
  have s: "sorted (map (\<lambda>i. - hourly_cost (nodes ! i)) xs)"
    unfolding xs_def by (rule sorted_sort_key)
  from assms(5) have it: "i \<in> set (take (nat n) xs)" unfolding sel .
  from sorted_take_drop_le[OF s it jd] show ?thesis by simp
qed

lemma termination_succeeds_status:
  "termination_succeeds ps (m\<lparr>node_status := s\<rparr>) = termination_succeeds ps m"
  by (simp add: termination_succeeds_def split: option.splits)

lemma terminate_loop_Inr:
  assumes "terminate_loop ps sel nodes acc = Inr (nodes', acc')"
    and "distinct sel" and "\<forall>i\<in>set sel. i < length nodes"
  shows "length nodes' = length nodes
    \<and> (\<forall>j<length nodes. nodes' ! j =
          (if j \<in> set sel \<and> termination_succeeds ps (nodes ! j)
           then (nodes ! j)\<lparr>node_status := ''terminated''\<rparr> else nodes ! j))
    \<and> acc' = acc @ map (\<lambda>i. node_id (nodes ! i))
                      (filter (\<lambda>i. termination_succeeds ps (nodes ! i)) sel)"
  using assms
proof (induction sel arbitrary: nodes acc)
  case Nil
  then show ?case by simp
next
  case (Cons i rest)
  from Cons.prems(1) obtain p where p: "ps (node_provider (nodes ! i)) = Some p"
    by (auto split: option.splits)
  from Cons.prems(2) have d: "distinct rest" and ni: "i \<notin> set rest" by simp_all
  from Cons.prems(3) have il: "i < length nodes" and rl: "\<forall>k\<in>set rest. k < length nodes"
    by simp_all
  show ?case
  proof (cases "terminate_instance p (instance_id (nodes ! i))")
    case False
    with p have ns: "\<not> termination_succeeds ps (nodes ! i)"
      by (simp add: termination_succeeds_def)
    from Cons.prems(1) p False
    have "terminate_loop ps rest nodes acc = Inr (nodes', acc')" by simp
    from Cons.IH[OF this d rl] ns show ?thesis by auto
  next
    case True
    with p have s: "termination_succeeds ps (nodes ! i)"
      by (simp add: termination_succeeds_def)
    let ?nodes1 = "nodes[i := (nodes ! i)\<lparr>node_status := ''terminated''\<rparr>]"
    from Cons.prems(1) p True
    have "terminate_loop ps rest ?nodes1 (acc @ [node_id (nodes ! i)]) = Inr (nodes', acc')"
      by simp
    from Cons.IH[OF this d] rl
    have len: "length nodes' = length nodes"
      and each: "\<forall>j<length nodes. nodes' ! j =
          (if j \<in> set rest \<and> termination_succeeds ps (?nodes1 ! j)
           then (?nodes1 ! j)\<lparr>node_status := ''terminated''\<rparr> else ?nodes1 ! j)"
      and acc: "acc' = (acc @ [node_id (nodes ! i)]) @ map (\<lambda>k. node_id (?nodes1 ! k))
                      (filter (\<lambda>k. termination_succeeds ps (?nodes1 ! k)) rest)"
      by simp_all
    have same: "?nodes1 ! k = nodes ! k" if "k \<in> set rest" for k
      using that ni by (cases "k = i") simp_all
    have f: "filter (\<lambda>k. termination_succeeds ps (?nodes1 ! k)) rest
               = filter (\<lambda>k. termination_succeeds ps (nodes ! k)) rest"
      by (rule filter_cong) (simp_all add: same)
    have m: "map (\<lambda>k. node_id (?nodes1 ! k)) (filter (\<lambda>k. termination_succeeds ps (nodes ! k)) rest)
               = map (\<lambda>k. node_id (nodes ! k)) (filter (\<lambda>k. termination_succeeds ps (nodes ! k)) rest)"
      by (rule map_cong) (simp_all add: same)
    have e: "\<forall>j<length nodes. nodes' ! j =
          (if j \<in> set (i # rest) \<and> termination_succeeds ps (nodes ! j)
           then (nodes ! j)\<lparr>node_status := ''terminated''\<rparr> else nodes ! j)"
    proof (intro allI impI)
      fix j assume jl: "j < length nodes"
      show "nodes' ! j =
          (if j \<in> set (i # rest) \<and> termination_succeeds ps (nodes ! j)
           then (nodes ! j)\<lparr>node_status := ''terminated''\<rparr> else nodes ! j)"
      proof (cases "j = i")
        case True
        with each jl ni il s show ?thesis by simp
      next
        case False
        then have "?nodes1 ! j = nodes ! j" by simp
        with each jl False show ?thesis by simp
      qed
    qed
    from len e acc s show ?thesis by (simp add: f m)
  qed
qed

lemma terminate_loop_returns:
  "\<forall>i\<in>set sel. i < length nodes \<Longrightarrow> \<forall>m\<in>set nodes. node_provider m \<in> dom ps
     \<Longrightarrow> \<exists>res. terminate_loop ps sel nodes acc = Inr res"
proof (induction sel arbitrary: nodes acc)
  case Nil
  then show ?case by simp
next
  case (Cons i rest)
  from Cons.prems have "node_provider (nodes ! i) \<in> dom ps" by simp
  then obtain p where p: "ps (node_provider (nodes ! i)) = Some p" by blast
  let ?nodes1 = "nodes[i := (nodes ! i)\<lparr>node_status := ''terminated''\<rparr>]"
  have "\<forall>m\<in>set ?nodes1. node_provider m \<in> dom ps"
  proof
    fix m assume "m \<in> set ?nodes1"
    then have "m \<in> insert ((nodes ! i)\<lparr>node_status := ''terminated''\<rparr>) (set nodes)"
      using set_update_subset_insert by fast
    with Cons.prems(2) \<open>node_provider (nodes ! i) \<in> dom ps\<close>
    show "node_provider m \<in> dom ps" by auto
  qed
  moreover have "\<forall>k\<in>set rest. k < length ?nodes1" using Cons.prems(1) by simp
  ultimately have "\<exists>res. terminate_loop ps rest ?nodes1 (acc @ [node_id (nodes ! i)]) = Inr res"
    by (rule Cons.IH[rotated])
  moreover have "\<exists>res. terminate_loop ps rest nodes acc = Inr res"
    using Cons.prems by (intro Cons.IH) simp_all
  ultimately show ?case using p by simp
qed

lemma scale_down_raised:
  "terminate_loop ps (idle_nodes nodes n) nodes [] = Inl e
     \<Longrightarrow> scale_down ps n nodes = (Inl e, nodes)"
  by (simp add: scale_down_def)

lemma scale_down_returned:
  "terminate_loop ps (idle_nodes nodes n) nodes [] = Inr (nodes', terminated)
     \<Longrightarrow> scale_down ps n nodes = (Inr terminated, nodes')"
  by (simp add: scale_down_def)

lemma scale_down_length: "length (snd (scale_down ps n nodes)) = length nodes"
proof (cases "terminate_loop ps (idle_nodes nodes n) nodes []")
  case (Inl e)
  then show ?thesis by (simp add: scale_down_raised)
next
  case (Inr res)
  obtain nodes' terminated where res: "res = (nodes', terminated)" by (cases res)
  from terminate_loop_Inr[OF Inr[unfolded res] idle_nodes_distinct] idle_nodes_set
  have "length nodes' = length nodes" by blast
  with Inr res show ?thesis by (simp add: scale_down_returned)
qed

lemma scale_down_Inl:
  assumes "fst (scale_down ps n nodes) = Inl e"
  shows "snd (scale_down ps n nodes) = nodes"
proof (cases "terminate_loop ps (idle_nodes nodes n) nodes []")
  case (Inl e')
  then show ?thesis by (simp add: scale_down_raised)
next
  case (Inr res)
  obtain nodes' terminated where res: "res = (nodes', terminated)" by (cases res)
  from Inr res assms show ?thesis by (simp add: scale_down_returned)
qed

lemma scale_down_Inr:
  assumes "fst (scale_down ps n nodes) = Inr terminated"
  shows "(\<forall>i<length nodes. snd (scale_down ps n nodes) ! i =
         (if i \<in> set (idle_nodes nodes n) \<and> termination_succeeds ps (nodes ! i)
          then (nodes ! i)\<lparr>node_status := ''terminated''\<rparr> else nodes ! i)) \<and>
      terminated = map (\<lambda>i. node_id (nodes ! i))
                     (filter (\<lambda>i. termination_succeeds ps (nodes ! i)) (idle_nodes nodes n))"
proof (cases "terminate_loop ps (idle_nodes nodes n) nodes []")
  case (Inl e')
  with assms show ?thesis by (simp add: scale_down_raised)
next
  case (Inr res)
  obtain nodes' t where res: "res = (nodes', t)" by (cases res)
  have sd: "scale_down ps n nodes = (Inr t, nodes')"
    using Inr res by (simp add: scale_down_returned)
  with assms have t: "t = terminated" by simp
  have inr: "\<forall>i\<in>set (idle_nodes nodes n). i < length nodes"
    using idle_nodes_set by blast
  from terminate_loop_Inr[OF Inr[unfolded res] idle_nodes_distinct inr]
  have "(\<forall>j<length nodes. nodes' ! j =
          (if j \<in> set (idle_nodes nodes n) \<and> termination_succeeds ps (nodes ! j)
           then (nodes ! j)\<lparr>node_status := ''terminated''\<rparr> else nodes ! j))
    \<and> t = [] @ map (\<lambda>i. node_id (nodes ! i))
                      (filter (\<lambda>i. termination_succeeds ps (nodes ! i)) (idle_nodes nodes n))"
    by (elim conjE) (intro conjI)
  then show ?thesis unfolding sd snd_conv t append_Nil .
qed

lemma scale_down_busy:
  assumes "i < length nodes" and "current_project_id (nodes ! i) \<noteq> None"
  shows "snd (scale_down ps n nodes) ! i = nodes ! i"
proof (cases "fst (scale_down ps n nodes)")
  case (Inl e)
  then show ?thesis by (simp add: scale_down_Inl)
next
  case (Inr terminated)
  from assms(2) idle_nodes_set[of i nodes n] have "i \<notin> set (idle_nodes nodes n)" by auto
  moreover from scale_down_Inr[OF Inr] assms(1)
  have "snd (scale_down ps n nodes) ! i =
         (if i \<in> set (idle_nodes nodes n) \<and> termination_succeeds ps (nodes ! i)
          then (nodes ! i)\<lparr>node_status := ''terminated''\<rparr> else nodes ! i)"
    by (elim conjE allE[of _ i] impE)
  ultimately show ?thesis by simp
qed

lemma scale_down_returns:
  assumes "\<forall>m\<in>set nodes. node_provider m \<in> dom ps"
  shows "\<exists>terminated. fst (scale_down ps n nodes) = Inr terminated"
proof -
  have inr: "\<forall>i\<in>set (idle_nodes nodes n). i < length nodes"
    using idle_nodes_set by blast
  from terminate_loop_returns[OF inr assms, of "[]"]
  obtain res where r: "terminate_loop ps (idle_nodes nodes n) nodes [] = Inr res" by (elim exE)
  obtain nodes' t where res: "res = (nodes', t)" by (cases res)
  from r res have "scale_down ps n nodes = (Inr t, nodes')" by (simp add: scale_down_returned)
  then have "fst (scale_down ps n nodes) = Inr t" by simp
  then show ?thesis by (rule exI)
qed

text \<open>
  C6, as the specification states it, fails for a negative count, which the endpoint
  passes on unchecked: \<open>scale_down(-1)\<close> on SQLite selects every idle node, here two
  of them, and terminates both.
\<close>

theorem scale_down_negative_count_counterexample:
  "idle_nodes example_nodes (- 1) = [2, 1] \<and>
   \<not> int (length (idle_nodes example_nodes (- 1))) \<le> - 1 \<and>
   fst (scale_down default_providers (- 1) example_nodes) = Inr [''n3'', ''n2'']"
proof -
  have 1: "idle_nodes example_nodes (- 1) = [2, 1]"
    by (simp add: idle_nodes_def limit_rows_def example_nodes_def upt_rec)
  have 2: "fst (scale_down default_providers (- 1) example_nodes) = Inr [''n3'', ''n2'']"
    by (simp add: scale_down_def 1)
       (simp add: example_nodes_def default_providers_def RunPodProvider_def VastAIProvider_def)
  from 1 2 show ?thesis by simp
qed

text \<open>
  C6, amended.  \<open>scale_down(n)\<close> selects only nodes that are \<open>available\<close> and without
  a current project, the most expensive first, and at most \<open>n\<close> of them when \<open>n\<close> is
  not negative.  A selected node is marked \<open>terminated\<close> exactly when the provider's
  termination call succeeds and is left as it was otherwise; the ids returned are those
  of the nodes so marked; every other node, and so every node whose
  \<open>current_project_id\<close> is set, is left as it was, also when the call raises.  The call
  returns whenever every node's provider is one the orchestrator knows.
\<close>

theorem scale_down_terminates_only_idle_nodes:
  "(0 \<le> n \<longrightarrow> int (length (idle_nodes nodes n)) \<le> n) \<and>
   (\<forall>i\<in>set (idle_nodes nodes n).
      i < length nodes \<and> node_status (nodes ! i) = ''available''
      \<and> current_project_id (nodes ! i) = None) \<and>
   sorted_wrt (\<lambda>i j. hourly_cost (nodes ! j) \<le> hourly_cost (nodes ! i)) (idle_nodes nodes n) \<and>
   (\<forall>j<length nodes. j \<notin> set (idle_nodes nodes n) \<longrightarrow>
      node_status (nodes ! j) = ''available'' \<longrightarrow> current_project_id (nodes ! j) = None \<longrightarrow>
      (\<forall>i\<in>set (idle_nodes nodes n). hourly_cost (nodes ! j) \<le> hourly_cost (nodes ! i))) \<and>
   length (snd (scale_down ps n nodes)) = length nodes \<and>
   (\<forall>i<length nodes. current_project_id (nodes ! i) \<noteq> None \<longrightarrow>
      snd (scale_down ps n nodes) ! i = nodes ! i) \<and>
   (\<forall>terminated. fst (scale_down ps n nodes) = Inr terminated \<longrightarrow>
      (\<forall>i<length nodes. snd (scale_down ps n nodes) ! i =
         (if i \<in> set (idle_nodes nodes n) \<and> termination_succeeds ps (nodes ! i)
          then (nodes ! i)\<lparr>node_status := ''terminated''\<rparr> else nodes ! i)) \<and>
      terminated = map (\<lambda>i. node_id (nodes ! i))
                     (filter (\<lambda>i. termination_succeeds ps (nodes ! i)) (idle_nodes nodes n))) \<and>
   (\<forall>e. fst (scale_down ps n nodes) = Inl e \<longrightarrow> snd (scale_down ps n nodes) = nodes) \<and>
   ((\<forall>m\<in>set nodes. node_provider m \<in> dom ps) \<longrightarrow>
      (\<exists>terminated. fst (scale_down ps n nodes) = Inr terminated))"
proof -
  have f1: "0 \<le> n \<longrightarrow> int (length (idle_nodes nodes n)) \<le> n"
    by (intro impI) (rule idle_nodes_length)
  have f2: "\<forall>i\<in>set (idle_nodes nodes n).
      i < length nodes \<and> node_status (nodes ! i) = ''available''
      \<and> current_project_id (nodes ! i) = None"
    by (intro ballI) (rule idle_nodes_set)
  have f4: "\<forall>j<length nodes. j \<notin> set (idle_nodes nodes n) \<longrightarrow>
      node_status (nodes ! j) = ''available'' \<longrightarrow> current_project_id (nodes ! j) = None \<longrightarrow>
      (\<forall>i\<in>set (idle_nodes nodes n). hourly_cost (nodes ! j) \<le> hourly_cost (nodes ! i))"
    by (intro allI impI ballI) (rule idle_nodes_most_expensive)
  have f6: "\<forall>i<length nodes. current_project_id (nodes ! i) \<noteq> None \<longrightarrow>
      snd (scale_down ps n nodes) ! i = nodes ! i"
    by (intro allI impI) (rule scale_down_busy)
  have f7: "\<forall>terminated. fst (scale_down ps n nodes) = Inr terminated \<longrightarrow>
      (\<forall>i<length nodes. snd (scale_down ps n nodes) ! i =
         (if i \<in> set (idle_nodes nodes n) \<and> termination_succeeds ps (nodes ! i)
          then (nodes ! i)\<lparr>node_status := ''terminated''\<rparr> else nodes ! i)) \<and>
      terminated = map (\<lambda>i. node_id (nodes ! i))
                     (filter (\<lambda>i. termination_succeeds ps (nodes ! i)) (idle_nodes nodes n))"
    by (intro allI impI) (rule scale_down_Inr)
  have f8: "\<forall>e. fst (scale_down ps n nodes) = Inl e \<longrightarrow> snd (scale_down ps n nodes) = nodes"
    by (intro allI impI) (rule scale_down_Inl)
  have f9: "(\<forall>m\<in>set nodes. node_provider m \<in> dom ps) \<longrightarrow>
      (\<exists>terminated. fst (scale_down ps n nodes) = Inr terminated)"
    by (intro impI) (rule scale_down_returns)
  show ?thesis
    by (rule conjI f1 f2 idle_nodes_descending f4 scale_down_length f6 f7 f8 f9)+
qed

lemma example_idle_nodes: "idle_nodes example_nodes 2 = [2, 1]"
  by (simp add: idle_nodes_def limit_rows_def example_nodes_def upt_rec)

lemma example_scale_down:
  "fst (scale_down example_providers 2 example_nodes) = Inr [''n3'']"
  by (simp add: scale_down_def example_idle_nodes)
     (simp add: example_nodes_def example_providers_def default_providers_def
       RunPodProvider_def VastAIProvider_def)

theorem scale_down_terminates_only_idle_nodes_witness:
  "idle_nodes example_nodes 2 = [2, 1] \<and>
   int (length (idle_nodes example_nodes 2)) \<le> 2 \<and>
   fst (scale_down example_providers 2 example_nodes) = Inr [''n3''] \<and>
   snd (scale_down example_providers 2 example_nodes) ! 0 = example_nodes ! 0 \<and>
   snd (scale_down example_providers 2 example_nodes) ! 1 = example_nodes ! 1 \<and>
   snd (scale_down example_providers 2 example_nodes) ! 2
     = (example_nodes ! 2)\<lparr>node_status := ''terminated''\<rparr>"
proof -
  note t = scale_down_terminates_only_idle_nodes[where nodes = example_nodes and n = 2
      and ps = example_providers]
  have len: "length example_nodes = 3" by (simp add: example_nodes_def)
  have busy: "current_project_id (example_nodes ! 0) \<noteq> None"
    by (simp add: example_nodes_def)
  have s1: "\<not> termination_succeeds example_providers (example_nodes ! 1)"
    by (simp add: termination_succeeds_def example_nodes_def example_providers_def
        default_providers_def RunPodProvider_def)
  have s2: "termination_succeeds example_providers (example_nodes ! 2)"
    by (simp add: termination_succeeds_def example_nodes_def example_providers_def
        default_providers_def VastAIProvider_def)
  from t busy len have 0: "snd (scale_down example_providers 2 example_nodes) ! 0 = example_nodes ! 0"
    by simp
  from t example_scale_down
  have each: "\<forall>i<length example_nodes. snd (scale_down example_providers 2 example_nodes) ! i =
         (if i \<in> set (idle_nodes example_nodes 2)
               \<and> termination_succeeds example_providers (example_nodes ! i)
          then (example_nodes ! i)\<lparr>node_status := ''terminated''\<rparr> else example_nodes ! i)"
    by blast
  from each len s1 have 1: "snd (scale_down example_providers 2 example_nodes) ! 1 = example_nodes ! 1"
    by simp
  from each len s2 have 2: "snd (scale_down example_providers 2 example_nodes) ! 2
     = (example_nodes ! 2)\<lparr>node_status := ''terminated''\<rparr>"
    by (simp add: example_idle_nodes)
  from t have 3: "int (length (idle_nodes example_nodes 2)) \<le> 2" by simp
  from example_idle_nodes example_scale_down 0 1 2 3 show ?thesis by simp
qed

section \<open>Assigning a project to a node\<close>

lemma scale_up_loop_returns:
  "set names \<subseteq> dom ps \<Longrightarrow> \<exists>st'. scale_up_loop ps names st = Inr st'"
proof (induction names arbitrary: st)
  case Nil
  show ?case by (cases st) auto
next
  case (Cons pname rest)
  obtain k pending new_nodes r where st: "st = (k, pending, new_nodes, r)"
    by (cases st)
  from Cons.prems obtain p where p: "ps pname = Some p" by auto
  from Cons.prems have sub: "set rest \<subseteq> dom ps" by simp
  show ?case
  proof (cases "k \<le> 0")
    case True
    then show ?thesis by (simp add: st)
  next
    case False
    obtain launched r1 where l: "launch_instances p (min k 5) ''rtx4090'' r = (launched, r1)"
      by (cases "launch_instances p (min k 5) ''rtx4090'' r")
    from Cons.IH[OF sub, of "persist_launched pname launched (k, pending, new_nodes, r1)"]
    show ?thesis using False p l by (simp add: st)
  qed
qed

lemma scale_up_returns:
  assumes "{''vast'', ''runpod'', ''lambda''} \<subseteq> dom ps"
  shows "\<exists>ids. fst (scale_up ps n nodes r) = Inr ids"
proof (cases "n \<le> int (length (filter (\<lambda>m. node_status m = ''available'') nodes))")
  case True
  then show ?thesis by (simp add: scale_up_def)
next
  case False
  from assms have "set [''vast'', ''runpod'', ''lambda''] \<subseteq> dom ps" by simp
  from scale_up_loop_returns[OF this]
  obtain st' where "scale_up_loop ps [''vast'', ''runpod'', ''lambda'']
      (n - int (length (filter (\<lambda>m. node_status m = ''available'') nodes)), [], [], r) = Inr st'"
    by blast
  with False show ?thesis
    by (cases st') (simp add: scale_up_def Let_def)
qed

lemma matching_nodes_set:
  "set (matching_nodes nodes tys)
     = {i. i < length nodes \<and> node_status (nodes ! i) = ''available''
            \<and> gpu_type (nodes ! i) \<in> set tys}"
  by (auto simp: matching_nodes_def)

lemma matching_nodes_empty:
  "matching_nodes nodes tys = [] \<longleftrightarrow>
     (\<forall>m\<in>set nodes. \<not> (node_status m = ''available'' \<and> gpu_type m \<in> set tys))"
proof -
  have "matching_nodes nodes tys = [] \<longleftrightarrow> set (matching_nodes nodes tys) = {}"
    by simp
  also have "\<dots> \<longleftrightarrow> (\<forall>i<length nodes. \<not> (node_status (nodes ! i) = ''available''
                 \<and> gpu_type (nodes ! i) \<in> set tys))"
    unfolding matching_nodes_set by blast
  also have "\<dots> \<longleftrightarrow> (\<forall>m\<in>set nodes. \<not> (node_status m = ''available'' \<and> gpu_type m \<in> set tys))"
    unfolding all_set_conv_all_nth ..
  finally show ?thesis .
qed

text \<open>
  C7.  With the three provider names in the orchestrator's table: when no node is
  \<open>available\<close> with a GPU class of the tier that the duration asks for,
  \<open>assign_project_to_node\<close> does not raise, returns \<open>None\<close>, and leaves the node table as
  one call \<open>scale_up(1)\<close> leaves it; when there is such a node, one of them becomes
  \<open>busy\<close> with \<open>current_project_id\<close> the project, its id is returned, and nothing else
  changes.
\<close>

theorem assign_scales_up_or_marks_busy:
  assumes "{''vast'', ''runpod'', ''lambda''} \<subseteq> dom ps"
  shows "((\<forall>m\<in>set nodes. \<not> (node_status m = ''available''
                               \<and> gpu_type m \<in> set (required_gpu_types minutes))) \<longrightarrow>
            (\<exists>ids. fst (scale_up ps 1 nodes r) = Inr ids) \<and>
            assign_project_to_node ps nodes r pid minutes
              = (Inr None, snd (scale_up ps 1 nodes r))) \<and>
         ((\<exists>m\<in>set nodes. node_status m = ''available''
                            \<and> gpu_type m \<in> set (required_gpu_types minutes)) \<longrightarrow>
            (\<exists>i<length nodes.
                node_status (nodes ! i) = ''available''
                \<and> gpu_type (nodes ! i) \<in> set (required_gpu_types minutes)
                \<and> assign_project_to_node ps nodes r pid minutes
                    = (Inr (Some (node_id (nodes ! i))),
                       nodes[i := (nodes ! i)\<lparr>node_status := ''busy'',
                                              current_project_id := Some pid\<rparr>],
                       r)))"
proof (intro conjI impI)
  assume none: "\<forall>m\<in>set nodes. \<not> (node_status m = ''available''
                               \<and> gpu_type m \<in> set (required_gpu_types minutes))"
  then have e: "matching_nodes nodes (required_gpu_types minutes) = []"
    by (simp only: matching_nodes_empty)
  from scale_up_returns[OF assms, of 1 nodes r]
  obtain ids where ids: "fst (scale_up ps 1 nodes r) = Inr ids" by (elim exE)
  then show "\<exists>ids. fst (scale_up ps 1 nodes r) = Inr ids" by (rule exI)
  obtain res nodes' r' where s: "scale_up ps 1 nodes r = (res, nodes', r')"
    by (cases "scale_up ps 1 nodes r")
  with ids have "res = Inr ids" by simp
  with s e show "assign_project_to_node ps nodes r pid minutes
              = (Inr None, snd (scale_up ps 1 nodes r))"
    by (simp add: assign_project_to_node_def)
next
  assume "\<exists>m\<in>set nodes. node_status m = ''available''
                            \<and> gpu_type m \<in> set (required_gpu_types minutes)"
  then have "matching_nodes nodes (required_gpu_types minutes) \<noteq> []"
    by (simp only: matching_nodes_empty) blast
  then obtain i rest where m: "matching_nodes nodes (required_gpu_types minutes) = i # rest"
    by (cases "matching_nodes nodes (required_gpu_types minutes)") auto
  then have "i \<in> set (matching_nodes nodes (required_gpu_types minutes))" by simp
  then have i: "i < length nodes" "node_status (nodes ! i) = ''available''"
    "gpu_type (nodes ! i) \<in> set (required_gpu_types minutes)"
    unfolding matching_nodes_set by simp_all
  have "assign_project_to_node ps nodes r pid minutes
                    = (Inr (Some (node_id (nodes ! i))),
                       nodes[i := (nodes ! i)\<lparr>node_status := ''busy'',
                                              current_project_id := Some pid\<rparr>],
                       r)"
    by (simp add: assign_project_to_node_def m)
  with i show "\<exists>i<length nodes.
                node_status (nodes ! i) = ''available''
                \<and> gpu_type (nodes ! i) \<in> set (required_gpu_types minutes)
                \<and> assign_project_to_node ps nodes r pid minutes
                    = (Inr (Some (node_id (nodes ! i))),
                       nodes[i := (nodes ! i)\<lparr>node_status := ''busy'',
                                              current_project_id := Some pid\<rparr>],
                       r)"
    by blast
qed

lemma default_providers_dom: "{''vast'', ''runpod'', ''lambda''} \<subseteq> dom default_providers"
  by (simp add: default_providers_def)

lemma example_matching: "matching_nodes example_nodes (required_gpu_types 10) = [1, 2]"
  by (simp add: matching_nodes_def required_gpu_types_def example_nodes_def upt_rec)

theorem assign_scales_up_or_marks_busy_witness:
  "assign_project_to_node default_providers [] example_rng ''p1'' 10
     = (Inr None, snd (scale_up default_providers 1 [] example_rng)) \<and>
   (\<exists>i<length example_nodes.
      assign_project_to_node default_providers example_nodes
          example_rng ''p1'' 10
        = (Inr (Some (node_id (example_nodes ! i))),
           example_nodes[i := (example_nodes ! i)\<lparr>node_status := ''busy'',
                                                  current_project_id := Some ''p1''\<rparr>],
           example_rng)) \<and>
   fst (assign_project_to_node default_providers example_nodes
          example_rng ''p1'' 10) = Inr (Some ''n2'')"
proof -
  note t = assign_scales_up_or_marks_busy[OF default_providers_dom]
  have none: "\<forall>m\<in>set ([] :: gpu_node list). \<not> (node_status m = ''available''
                               \<and> gpu_type m \<in> set (required_gpu_types 10))"
    by simp
  have some: "\<exists>m\<in>set example_nodes. node_status m = ''available''
                            \<and> gpu_type m \<in> set (required_gpu_types 10)"
    by (simp add: example_nodes_def required_gpu_types_def)
  from t[of "[]" 10 example_rng "''p1''"] none
  have 1: "assign_project_to_node default_providers [] example_rng ''p1'' 10
     = (Inr None, snd (scale_up default_providers 1 [] example_rng))"
    by blast
  from t[of example_nodes 10 example_rng "''p1''"] some
  have 2: "\<exists>i<length example_nodes.
      assign_project_to_node default_providers example_nodes
          example_rng ''p1'' 10
        = (Inr (Some (node_id (example_nodes ! i))),
           example_nodes[i := (example_nodes ! i)\<lparr>node_status := ''busy'',
                                                  current_project_id := Some ''p1''\<rparr>],
           example_rng)"
    by blast
  have 3: "fst (assign_project_to_node default_providers example_nodes
          example_rng ''p1'' 10) = Inr (Some ''n2'')"
    by (simp add: assign_project_to_node_def example_matching) (simp add: example_nodes_def)
  show ?thesis by (rule conjI[OF 1 conjI[OF 2 3]])
qed

section \<open>Scaling up\<close>

lemma launch_loop_props:
  "length (fst (launch_loop prefix c1 c2 reg k gpu r)) = k \<and>
   (\<forall>x\<in>set (fst (launch_loop prefix c1 c2 reg k gpu r)).
      inst_gpu_type x = gpu \<and> inst_hourly_cost x = (if gpu = ''rtx4090'' then c1 else c2))"
  by (induction k arbitrary: r) (simp_all add: split_beta Let_def)

lemma persist_launched_props:
  "\<exists>ns r'. persist_launched pname insts (k, pending, new_nodes, r)
              = (k - int (length insts), pending @ ns, new_nodes @ map node_id ns, r')
     \<and> length ns = length insts
     \<and> (\<forall>m\<in>set ns. node_provider m = pname \<and> node_status m = ''available''
            \<and> current_project_id m = None
            \<and> (\<exists>x\<in>set insts. gpu_type m = inst_gpu_type x
                                \<and> hourly_cost m = inst_hourly_cost x))"
proof (induction insts arbitrary: k pending new_nodes r)
  case Nil
  show ?case by simp
next
  case (Cons i rest)
  let ?node = "\<lparr>node_id = r 0, node_provider = pname, instance_id = inst_instance_id i,
                   gpu_type = inst_gpu_type i, hourly_cost = inst_hourly_cost i,
                   node_status = ''available'', current_project_id = None,
                   performance_score = 1, region = inst_region i\<rparr>"
  from Cons.IH[of "k - 1" "pending @ [?node]" "new_nodes @ [r 0]" "\<lambda>j. r (Suc j)"]
  obtain ns r' where
    eq: "persist_launched pname rest (k - 1, pending @ [?node], new_nodes @ [r 0], \<lambda>j. r (Suc j))
           = (k - 1 - int (length rest), (pending @ [?node]) @ ns,
              (new_nodes @ [r 0]) @ map node_id ns, r')"
    and len: "length ns = length rest"
    and props: "\<forall>m\<in>set ns. node_provider m = pname \<and> node_status m = ''available''
            \<and> current_project_id m = None
            \<and> (\<exists>x\<in>set rest. gpu_type m = inst_gpu_type x \<and> hourly_cost m = inst_hourly_cost x)"
    by (elim exE conjE)
  have 1: "persist_launched pname (i # rest) (k, pending, new_nodes, r)
          = (k - int (length (i # rest)), pending @ (?node # ns),
             new_nodes @ map node_id (?node # ns), r')"
    by (simp add: token_hex_def eq)
  have 2: "length (?node # ns) = length (i # rest)" using len by simp
  have 3: "\<forall>m\<in>set (?node # ns). node_provider m = pname \<and> node_status m = ''available''
            \<and> current_project_id m = None
            \<and> (\<exists>x\<in>set (i # rest). gpu_type m = inst_gpu_type x
                                 \<and> hourly_cost m = inst_hourly_cost x)"
    using props by auto
  from 1 2 3 show ?case by blast
qed

lemma scale_up_loop_break:
  "k \<le> 0 \<Longrightarrow> scale_up_loop ps names (k, pending, new_nodes, r) = Inr (k, pending, new_nodes, r)"
  by (cases names) simp_all

lemma stub_step:
  assumes "ps pname = Some p"
    and "launch_instances p = (\<lambda>count gpu r. launch_loop prefix c1 c2 reg (nat count) gpu r)"
  shows "\<exists>ns r'. scale_up_loop ps (pname # rest) (k, pending, new_nodes, r)
                  = scale_up_loop ps rest
                      (k - int (nat (min k 5)), pending @ ns, new_nodes @ map node_id ns, r')
     \<and> length ns = nat (min k 5)
     \<and> (\<forall>m\<in>set ns. node_provider m = pname \<and> hourly_cost m = c1
            \<and> node_status m = ''available'' \<and> current_project_id m = None
            \<and> gpu_type m = ''rtx4090'')"
proof (cases "k \<le> 0")
  case True
  then have n0: "nat (min k 5) = 0" by simp
  have "scale_up_loop ps (pname # rest) (k, pending, new_nodes, r)
          = Inr (k, pending, new_nodes, r)"
    using True by simp
  also have "\<dots> = scale_up_loop ps rest (k, pending, new_nodes, r)"
    using True by (simp add: scale_up_loop_break)
  finally have 1: "scale_up_loop ps (pname # rest) (k, pending, new_nodes, r)
      = scale_up_loop ps rest
          (k - int (nat (min k 5)), pending @ [], new_nodes @ map node_id [], r)"
    by (simp only: n0 append_Nil2 list.map int_ops diff_zero)
  have 2: "length ([] :: gpu_node list) = nat (min k 5)" by (simp only: n0 list.size)
  have 3: "\<forall>m\<in>set ([] :: gpu_node list). node_provider m = pname \<and> hourly_cost m = c1
            \<and> node_status m = ''available'' \<and> current_project_id m = None
            \<and> gpu_type m = ''rtx4090''" by simp
  from 1 2 3 show ?thesis by blast
next
  case False
  let ?l = "launch_loop prefix c1 c2 reg (nat (min k 5)) ''rtx4090'' r"
  from launch_loop_props[of prefix c1 c2 reg "nat (min k 5)" "''rtx4090''" r]
  have ll: "length (fst ?l) = nat (min k 5)"
    and lp: "\<forall>x\<in>set (fst ?l). inst_gpu_type x = ''rtx4090'' \<and> inst_hourly_cost x = c1"
    by simp_all
  from persist_launched_props[of pname "fst ?l" k pending new_nodes "snd ?l"]
  obtain ns r' where
    eq: "persist_launched pname (fst ?l) (k, pending, new_nodes, snd ?l)
              = (k - int (length (fst ?l)), pending @ ns, new_nodes @ map node_id ns, r')"
    and len: "length ns = length (fst ?l)"
    and props: "\<forall>m\<in>set ns. node_provider m = pname \<and> node_status m = ''available''
            \<and> current_project_id m = None
            \<and> (\<exists>x\<in>set (fst ?l). gpu_type m = inst_gpu_type x
                                \<and> hourly_cost m = inst_hourly_cost x)"
    by (elim exE conjE)
  have 1: "scale_up_loop ps (pname # rest) (k, pending, new_nodes, r)
                  = scale_up_loop ps rest
                      (k - int (nat (min k 5)), pending @ ns, new_nodes @ map node_id ns, r')"
    using False assms eq ll by (simp add: split_beta)
  have 2: "length ns = nat (min k 5)" using len ll by simp
  have 3: "\<forall>m\<in>set ns. node_provider m = pname \<and> hourly_cost m = c1
            \<and> node_status m = ''available'' \<and> current_project_id m = None
            \<and> gpu_type m = ''rtx4090''"
    using props lp by auto
  from 1 2 3 show ?thesis by blast
qed

lemma map_const_replicate: "\<forall>x\<in>set xs. f x = c \<Longrightarrow> map f xs = replicate (length xs) c"
  by (induction xs) auto

lemma default_providers_lookup:
  "default_providers ''vast'' = Some VastAIProvider"
  "default_providers ''runpod'' = Some RunPodProvider"
  "default_providers ''lambda'' = Some LambdaLabsProvider"
  by (simp_all add: default_providers_def)

lemma default_providers_launch:
  "launch_instances VastAIProvider
     = (\<lambda>count gpu r. launch_loop ''vast_'' (35 / 100) (99 / 100) ''us-west-2'' (nat count) gpu r)"
  "launch_instances RunPodProvider
     = (\<lambda>count gpu r. launch_loop ''runpod_'' (44 / 100) (119 / 100) ''us-east-1'' (nat count) gpu r)"
  "launch_instances LambdaLabsProvider
     = (\<lambda>count gpu r. launch_loop ''lambda_'' (50 / 100) (149 / 100) ''us-central-1'' (nat count)
          gpu r)"
  by (simp_all add: VastAIProvider_def RunPodProvider_def LambdaLabsProvider_def)

lemma batch_sizes:
  fixes k :: int
  shows "nat (min (k - int (nat (min k 5))) 5) = nat (min (k - 5) 5)"
    and "nat (min (k - int (nat (min k 5)) - int (nat (min (k - 5) 5))) 5) = nat (min (k - 10) 5)"
    and "0 < k \<Longrightarrow> int (nat (min k 5)) + int (nat (min (k - 5) 5)) + int (nat (min (k - 10) 5)) \<le> k"
  by (auto simp: min_def)

lemma scale_up_loop_default:
  "\<exists>ns1 ns2 ns3 r'.
     scale_up_loop default_providers [''vast'', ''runpod'', ''lambda''] (k, [], [], r)
       = Inr (k - int (nat (min k 5)) - int (nat (min (k - 5) 5)) - int (nat (min (k - 10) 5)),
              ns1 @ ns2 @ ns3, map node_id (ns1 @ ns2 @ ns3), r')
     \<and> length ns1 = nat (min k 5) \<and> length ns2 = nat (min (k - 5) 5)
     \<and> length ns3 = nat (min (k - 10) 5)
     \<and> (\<forall>m\<in>set ns1. node_provider m = ''vast'' \<and> hourly_cost m = 35 / 100
            \<and> node_status m = ''available'' \<and> current_project_id m = None
            \<and> gpu_type m = ''rtx4090'')
     \<and> (\<forall>m\<in>set ns2. node_provider m = ''runpod'' \<and> hourly_cost m = 44 / 100
            \<and> node_status m = ''available'' \<and> current_project_id m = None
            \<and> gpu_type m = ''rtx4090'')
     \<and> (\<forall>m\<in>set ns3. node_provider m = ''lambda'' \<and> hourly_cost m = 50 / 100
            \<and> node_status m = ''available'' \<and> current_project_id m = None
            \<and> gpu_type m = ''rtx4090'')"
proof -
  from stub_step[where ps = default_providers and pname = "''vast''" and rest = "[''runpod'', ''lambda'']"
      and k = k and pending = "[]" and new_nodes = "[]" and r = r,
      OF default_providers_lookup(1) default_providers_launch(1)]
  obtain ns1 r1 where
    s1: "scale_up_loop default_providers [''vast'', ''runpod'', ''lambda''] (k, [], [], r)
          = scale_up_loop default_providers [''runpod'', ''lambda'']
              (k - int (nat (min k 5)), ns1, map node_id ns1, r1)"
    and l1: "length ns1 = nat (min k 5)"
    and p1: "\<forall>m\<in>set ns1. node_provider m = ''vast'' \<and> hourly_cost m = 35 / 100
            \<and> node_status m = ''available'' \<and> current_project_id m = None
            \<and> gpu_type m = ''rtx4090''"
    by (elim exE conjE) (simp only: append_Nil)
  from stub_step[where ps = default_providers and pname = "''runpod''" and rest = "[''lambda'']"
      and k = "k - int (nat (min k 5))" and pending = ns1 and new_nodes = "map node_id ns1"
      and r = r1, OF default_providers_lookup(2) default_providers_launch(2)]
  obtain ns2 r2 where
    s2: "scale_up_loop default_providers [''runpod'', ''lambda'']
              (k - int (nat (min k 5)), ns1, map node_id ns1, r1)
          = scale_up_loop default_providers [''lambda'']
              (k - int (nat (min k 5)) - int (nat (min (k - 5) 5)), ns1 @ ns2,
               map node_id ns1 @ map node_id ns2, r2)"
    and l2: "length ns2 = nat (min (k - 5) 5)"
    and p2: "\<forall>m\<in>set ns2. node_provider m = ''runpod'' \<and> hourly_cost m = 44 / 100
            \<and> node_status m = ''available'' \<and> current_project_id m = None
            \<and> gpu_type m = ''rtx4090''"
    by (elim exE conjE) (simp only: batch_sizes(1))
  from stub_step[where ps = default_providers and pname = "''lambda''" and rest = "[]"
      and k = "k - int (nat (min k 5)) - int (nat (min (k - 5) 5))" and pending = "ns1 @ ns2"
      and new_nodes = "map node_id ns1 @ map node_id ns2" and r = r2,
      OF default_providers_lookup(3) default_providers_launch(3)]
  obtain ns3 r3 where
    s3: "scale_up_loop default_providers [''lambda'']
              (k - int (nat (min k 5)) - int (nat (min (k - 5) 5)), ns1 @ ns2,
               map node_id ns1 @ map node_id ns2, r2)
          = scale_up_loop default_providers []
              (k - int (nat (min k 5)) - int (nat (min (k - 5) 5)) - int (nat (min (k - 10) 5)),
               (ns1 @ ns2) @ ns3, (map node_id ns1 @ map node_id ns2) @ map node_id ns3, r3)"
    and l3: "length ns3 = nat (min (k - 10) 5)"
    and p3: "\<forall>m\<in>set ns3. node_provider m = ''lambda'' \<and> hourly_cost m = 50 / 100
            \<and> node_status m = ''available'' \<and> current_project_id m = None
            \<and> gpu_type m = ''rtx4090''"
    by (elim exE conjE) (simp only: batch_sizes(2))
  have "scale_up_loop default_providers [''vast'', ''runpod'', ''lambda''] (k, [], [], r)
       = Inr (k - int (nat (min k 5)) - int (nat (min (k - 5) 5)) - int (nat (min (k - 10) 5)),
              ns1 @ ns2 @ ns3, map node_id (ns1 @ ns2 @ ns3), r3)"
    unfolding s1 s2 s3 by simp
  with l1 l2 l3 p1 p2 p3 show ?thesis by blast
qed

lemma sorted_three_runs:
  "x \<le> y \<Longrightarrow> y \<le> z \<Longrightarrow> sorted (replicate a x @ replicate b y @ replicate c (z::rat))"
  by (auto simp: sorted_append)

text \<open>
  C8.  \<open>scale_up(n)\<close> with the orchestrator's own providers returns normally.  It appends
  the new nodes to the table and returns their ids; the new nodes come from Vast first,
  then RunPod, then Lambda, which is the ascending order of their hourly cost (0.35,
  0.44, 0.50 for the class launched); each new node is \<open>available\<close> and unassigned; and
  there are at most \<open>n\<close> of them, fewer when nodes are already available or when more
  than five per provider would be needed.
\<close>

theorem scale_up_creates_available_nodes:
  "\<exists>new r'.
     scale_up default_providers n nodes r = (Inr (map node_id new), nodes @ new, r') \<and>
     map (\<lambda>m. (node_provider m, hourly_cost m)) new
       = replicate (nat (min (nodes_to_add n nodes) 5)) (''vast'', 35 / 100)
         @ replicate (nat (min (nodes_to_add n nodes - 5) 5)) (''runpod'', 44 / 100)
         @ replicate (nat (min (nodes_to_add n nodes - 10) 5)) (''lambda'', 50 / 100) \<and>
     (\<forall>m\<in>set new. node_status m = ''available'' \<and> current_project_id m = None
                    \<and> gpu_type m = ''rtx4090'') \<and>
     int (length new) \<le> max 0 n \<and>
     sorted (map hourly_cost new)"
proof (cases "nodes_to_add n nodes \<le> 0")
  case True
  then have "scale_up default_providers n nodes r = (Inr (map node_id []), nodes @ [], r)"
    by (simp add: scale_up_def nodes_to_add_def)
  moreover from True
  have "map (\<lambda>m. (node_provider m, hourly_cost m)) ([] :: gpu_node list)
       = replicate (nat (min (nodes_to_add n nodes) 5)) (''vast'', 35 / 100)
         @ replicate (nat (min (nodes_to_add n nodes - 5) 5)) (''runpod'', 44 / 100)
         @ replicate (nat (min (nodes_to_add n nodes - 10) 5)) (''lambda'', 50 / 100)"
    by simp
  ultimately show ?thesis
    by (intro exI[of _ "[]"] exI[of _ r]) simp
next
  case False
  define k where "k = nodes_to_add n nodes"
  from False have kpos: "0 < k" by (simp add: k_def)
  have kn: "k \<le> n" by (simp add: k_def nodes_to_add_def)
  from scale_up_loop_default[of k r]
  obtain ns1 ns2 ns3 r' where
    loop: "scale_up_loop default_providers [''vast'', ''runpod'', ''lambda''] (k, [], [], r)
       = Inr (k - int (nat (min k 5)) - int (nat (min (k - 5) 5)) - int (nat (min (k - 10) 5)),
              ns1 @ ns2 @ ns3, map node_id (ns1 @ ns2 @ ns3), r')"
    and l1: "length ns1 = nat (min k 5)" and l2: "length ns2 = nat (min (k - 5) 5)"
    and l3: "length ns3 = nat (min (k - 10) 5)"
    and p1: "\<forall>m\<in>set ns1. node_provider m = ''vast'' \<and> hourly_cost m = 35 / 100
            \<and> node_status m = ''available'' \<and> current_project_id m = None
            \<and> gpu_type m = ''rtx4090''"
    and p2: "\<forall>m\<in>set ns2. node_provider m = ''runpod'' \<and> hourly_cost m = 44 / 100
            \<and> node_status m = ''available'' \<and> current_project_id m = None
            \<and> gpu_type m = ''rtx4090''"
    and p3: "\<forall>m\<in>set ns3. node_provider m = ''lambda'' \<and> hourly_cost m = 50 / 100
            \<and> node_status m = ''available'' \<and> current_project_id m = None
            \<and> gpu_type m = ''rtx4090''"
    by (elim exE conjE)
  let ?new = "ns1 @ ns2 @ ns3"
  have "scale_up default_providers n nodes r
          = (case scale_up_loop default_providers [''vast'', ''runpod'', ''lambda'']
                     (k, [], [], r) of
                Inl e \<Rightarrow> (Inl e, nodes, r)
              | Inr (_, pending, new_nodes, r') \<Rightarrow> (Inr new_nodes, nodes @ pending, r'))"
    using False
    by (simp add: scale_up_def Let_def nodes_to_add_def k_def del: scale_up_loop.simps)
  then have 1: "scale_up default_providers n nodes r
                  = (Inr (map node_id ?new), nodes @ ?new, r')"
    unfolding loop by simp
  have m1: "map (\<lambda>m. (node_provider m, hourly_cost m)) ns1
              = replicate (length ns1) (''vast'', 35 / 100)"
    by (rule map_const_replicate) (use p1 in simp)
  have m2: "map (\<lambda>m. (node_provider m, hourly_cost m)) ns2
              = replicate (length ns2) (''runpod'', 44 / 100)"
    by (rule map_const_replicate) (use p2 in simp)
  have m3: "map (\<lambda>m. (node_provider m, hourly_cost m)) ns3
              = replicate (length ns3) (''lambda'', 50 / 100)"
    by (rule map_const_replicate) (use p3 in simp)
  have 2: "map (\<lambda>m. (node_provider m, hourly_cost m)) ?new
       = replicate (nat (min (nodes_to_add n nodes) 5)) (''vast'', 35 / 100)
         @ replicate (nat (min (nodes_to_add n nodes - 5) 5)) (''runpod'', 44 / 100)
         @ replicate (nat (min (nodes_to_add n nodes - 10) 5)) (''lambda'', 50 / 100)"
    unfolding map_append m1 m2 m3 l1 l2 l3 k_def ..
  have 3: "\<forall>m\<in>set ?new. node_status m = ''available'' \<and> current_project_id m = None
                    \<and> gpu_type m = ''rtx4090''"
    using p1 p2 p3 by auto
  have "int (length ?new) = int (nat (min k 5)) + int (nat (min (k - 5) 5))
                              + int (nat (min (k - 10) 5))"
    by (simp add: l1 l2 l3)
  also have "\<dots> \<le> k" using kpos by (rule batch_sizes(3))
  finally have 4: "int (length ?new) \<le> max 0 n" using kn by simp
  have c1: "map hourly_cost ns1 = replicate (length ns1) (35 / 100)"
    by (rule map_const_replicate) (use p1 in simp)
  have c2: "map hourly_cost ns2 = replicate (length ns2) (44 / 100)"
    by (rule map_const_replicate) (use p2 in simp)
  have c3: "map hourly_cost ns3 = replicate (length ns3) (50 / 100)"
    by (rule map_const_replicate) (use p3 in simp)
  have 5: "sorted (map hourly_cost ?new)"
    unfolding map_append c1 c2 c3 by (rule sorted_three_runs) simp_all
  from 1 2 3 4 5 show ?thesis by blast
qed

theorem scale_up_creates_available_nodes_witness:
  "(\<exists>new r'. scale_up default_providers 2 [] example_rng
                 = (Inr (map node_id new), new, r')
      \<and> map (\<lambda>m. (node_provider m, hourly_cost m)) new
          = [(''vast'', 35 / 100), (''vast'', 35 / 100)]
      \<and> (\<forall>m\<in>set new. node_status m = ''available'' \<and> current_project_id m = None)) \<and>
   (\<exists>new r'. scale_up default_providers 20 [] example_rng
                 = (Inr (map node_id new), new, r')
      \<and> length new = 15)"
proof
  from scale_up_creates_available_nodes[of 2 "[]" example_rng]
  obtain new r' where
    "scale_up default_providers 2 [] example_rng
        = (Inr (map node_id new), [] @ new, r')"
    and "map (\<lambda>m. (node_provider m, hourly_cost m)) new
       = replicate (nat (min (nodes_to_add 2 []) 5)) (''vast'', 35 / 100)
         @ replicate (nat (min (nodes_to_add 2 [] - 5) 5)) (''runpod'', 44 / 100)
         @ replicate (nat (min (nodes_to_add 2 [] - 10) 5)) (''lambda'', 50 / 100)"
    and "\<forall>m\<in>set new. node_status m = ''available'' \<and> current_project_id m = None
                    \<and> gpu_type m = ''rtx4090''"
    by (elim exE conjE)
  then have "scale_up default_providers 2 [] example_rng
                 = (Inr (map node_id new), new, r')
      \<and> map (\<lambda>m. (node_provider m, hourly_cost m)) new
          = [(''vast'', 35 / 100), (''vast'', 35 / 100)]
      \<and> (\<forall>m\<in>set new. node_status m = ''available'' \<and> current_project_id m = None)"
    by (simp add: nodes_to_add_def eval_nat_numeral)
  then show "\<exists>new r'. scale_up default_providers 2 [] example_rng
                 = (Inr (map node_id new), new, r')
      \<and> map (\<lambda>m. (node_provider m, hourly_cost m)) new
          = [(''vast'', 35 / 100), (''vast'', 35 / 100)]
      \<and> (\<forall>m\<in>set new. node_status m = ''available'' \<and> current_project_id m = None)"
    by (intro exI)
next
  from scale_up_creates_available_nodes[of 20 "[]" example_rng]
  obtain new r' where
    s: "scale_up default_providers 20 [] example_rng
        = (Inr (map node_id new), [] @ new, r')"
    and m: "map (\<lambda>m. (node_provider m, hourly_cost m)) new
       = replicate (nat (min (nodes_to_add 20 []) 5)) (''vast'', 35 / 100)
         @ replicate (nat (min (nodes_to_add 20 [] - 5) 5)) (''runpod'', 44 / 100)
         @ replicate (nat (min (nodes_to_add 20 [] - 10) 5)) (''lambda'', 50 / 100)"
    by (elim exE conjE)
  from m have "length (map (\<lambda>m. (node_provider m, hourly_cost m)) new) = 15"
    by (simp add: nodes_to_add_def)
  then have "length new = 15" by simp
  with s show "\<exists>new r'. scale_up default_providers 20 [] example_rng
                 = (Inr (map node_id new), new, r')
      \<and> length new = 15"
    by auto
qed

end
